theory Spec2Isabelle
  imports Main
begin

section \<open>Python values used by \<open>main.py\<close>\<close>

text \<open>
  A Python \<open>str\<close> is a sequence of Unicode code points, so \<open>len\<close> counts code points and
  the emoji of the fixed messages are single elements. ASCII literals are written as HOL
  strings and converted with \<open>ascii\<close>.
\<close>

type_synonym pystr = "nat list"

definition ascii :: "string \<Rightarrow> pystr" where
  "ascii s = map of_char s"

text \<open>
  \<open>str.strip()\<close> without argument removes leading and trailing code points for which
  \<open>str.isspace\<close> holds (CPython's \<open>_PyUnicode_IsWhitespace\<close>).
\<close>

definition py_isspace :: "nat \<Rightarrow> bool" where
  "py_isspace c =
     ((9 \<le> c \<and> c \<le> 13) \<or> (28 \<le> c \<and> c \<le> 32) \<or> c = 0x85 \<or> c = 0xA0 \<or> c = 0x1680 \<or>
      (0x2000 \<le> c \<and> c \<le> 0x200A) \<or> c = 0x2028 \<or> c = 0x2029 \<or> c = 0x202F \<or>
      c = 0x205F \<or> c = 0x3000)"

definition strip :: "pystr \<Rightarrow> pystr" where
  "strip s = rev (dropWhile py_isspace (rev (dropWhile py_isspace s)))"

text \<open>
  An exception instance: whether its class derives from \<open>Exception\<close> (what
  \<open>except Exception\<close> tests; \<open>KeyboardInterrupt\<close> or \<open>SystemExit\<close> do not), the class
  name, and \<open>str(e)\<close>, which the handlers print.
\<close>

datatype pyexc = PyExc (derives_Exception: bool) (exc_class: string) (exc_str: pystr)

definition AttributeError :: pyexc where
  "AttributeError = PyExc True ''AttributeError'' []"

definition JSONDecodeError :: pyexc where
  "JSONDecodeError = PyExc True ''JSONDecodeError'' []"

definition UnicodeEncodeError :: pyexc where
  "UnicodeEncodeError = PyExc True ''UnicodeEncodeError'' []"

text \<open>
  \<open>print\<close> writes a line to the standard output or raises. The standard output is a
  parameter: for a line, the exception its \<open>print\<close> raises, or \<open>None\<close> when the line is
  written. Two instances: a strict UTF-8 stream, which cannot encode a surrogate code
  point, and a stream of an ASCII encoding, which cannot encode the emoji of the log
  lines either.
\<close>

type_synonym stdout = "pystr \<Rightarrow> pyexc option"

definition is_surrogate :: "nat \<Rightarrow> bool" where
  "is_surrogate c = (0xD800 \<le> c \<and> c \<le> 0xDFFF)"

definition utf8_stdout :: stdout where
  "utf8_stdout line = (if list_ex is_surrogate line then Some UnicodeEncodeError else None)"

definition ascii_stdout :: stdout where
  "ascii_stdout line = (if list_all (\<lambda>c. c < 128) line then None else Some UnicodeEncodeError)"

text \<open>
  What \<open>json.loads\<close> returns. A float is \<open>m * 2 ^ e\<close>, an infinity or NaN; only its
  truth value is used. A \<open>dict\<close> is the list of its items (keys distinct), read with
  \<open>map_of\<close>.
\<close>

datatype pyfloat = Finite int int | Infinity bool | NaN

datatype json =
    JNull
  | JBool bool
  | JInt int
  | JFloat pyfloat
  | JStr pystr
  | JArr "json list"
  | JObj "(pystr \<times> json) list"

text \<open>Truth value testing, as \<open>not question\<close> applies it.\<close>

fun truthy :: "json \<Rightarrow> bool" where
  "truthy JNull = False"
| "truthy (JBool b) = b"
| "truthy (JInt i) = (i \<noteq> 0)"
| "truthy (JFloat (Finite m e)) = (m \<noteq> 0)"
| "truthy (JFloat (Infinity s)) = True"
| "truthy (JFloat NaN) = True"
| "truthy (JStr s) = (s \<noteq> [])"
| "truthy (JArr xs) = (xs \<noteq> [])"
| "truthy (JObj kvs) = (kvs \<noteq> [])"

text \<open>\<open>body.get(key, default)\<close>: only a \<open>dict\<close> has the method.\<close>

fun py_get :: "json \<Rightarrow> pystr \<Rightarrow> json \<Rightarrow> pyexc + json" where
  "py_get (JObj kvs) k d = Inr (case map_of kvs k of None \<Rightarrow> d | Some v \<Rightarrow> v)"
| "py_get _ k d = Inl AttributeError"

section \<open>The fixed texts\<close>

definition index_error_text :: pystr where
  "index_error_text = [0x274C] @ ascii '' Error: The document index is not available.''"

definition validation_error_text :: pystr where
  "validation_error_text = [0x26A0, 0xFE0F] @ ascii '' Please ask a valid question.''"

definition apology_text :: pystr where
  "apology_text = ascii ''Sorry, an error occurred while processing your request.''"

definition question_log :: "pystr \<Rightarrow> pystr" where
  "question_log question = [0x1F4E5] @ ascii '' Q: '' @ question"

definition streaming_error_log :: "pyexc \<Rightarrow> pystr" where
  "streaming_error_log e = [0x274C] @ ascii '' Error during streaming query: '' @ exc_str e"

section \<open>The query engine and the response streams\<close>

text \<open>
  \<open>streaming_response.response_gen\<close> is a generator of tokens: it yields a token, ends,
  or raises. \<open>query_engine.query(question)\<close> returns such a generator or raises.
\<close>

datatype token_gen = Exhausted | Token pystr token_gen | GenRaise pyexc

type_synonym engine = "pystr \<Rightarrow> pyexc + token_gen"

text \<open>
  The effects of a request, in the order they happen: the semaphore's acquire and release,
  \<open>await request.json()\<close>, a line printed, and \<open>query_engine.query\<close>.
\<close>

datatype event = SemAcquire | SemRelease | RequestJson | Print pystr | EngineQuery pystr

text \<open>
  Calling an async generator function runs none of its body: the handler hands the
  unstarted generator to \<open>StreamingResponse\<close>, which iterates it after the handler has
  returned. \<open>EventStream question\<close> is the closure of \<open>event_stream\<close> over the question.
\<close>

datatype stream_gen = IndexErrorStream | ValidationErrorStream | EventStream pystr

record response =
  status_code :: nat
  media_type :: string
  body_iterator :: stream_gen

text \<open>Starlette's \<open>StreamingResponse(content, status_code=200, media_type=None)\<close>.\<close>

definition StreamingResponse :: "stream_gen \<Rightarrow> string \<Rightarrow> response" where
  "StreamingResponse content mt =
     \<lparr>status_code = 200, media_type = mt, body_iterator = content\<rparr>"

record stream_out =
  chunks :: "pystr list"
  stream_events :: "event list"
  stream_raised :: "pyexc option"

text \<open>
  \<open>query_engine.query(question)\<close> on the global: on \<open>None\<close> the attribute access raises
  \<open>AttributeError\<close>.
\<close>

definition engine_query :: "engine option \<Rightarrow> pystr \<Rightarrow> pyexc + token_gen" where
  "engine_query qe question =
     (case qe of None \<Rightarrow> Inl AttributeError | Some f \<Rightarrow> f question)"

text \<open>
  The \<open>except Exception as e\<close> clause of \<open>event_stream\<close>, entered after the tokens \<open>ts\<close>
  were yielded: it prints the error, then yields the apology. An exception that does not
  derive from \<open>Exception\<close> propagates, and so does an exception raised by the \<open>print\<close>,
  which stands before the \<open>yield\<close>.
\<close>

definition except_clause :: "stdout \<Rightarrow> pystr list \<Rightarrow> event list \<Rightarrow> pyexc \<Rightarrow> stream_out" where
  "except_clause out ts evs e =
     (if derives_Exception e
      then (case out (streaming_error_log e) of
              None \<Rightarrow>
                \<lparr>chunks = ts @ [apology_text],
                 stream_events = evs @ [Print (streaming_error_log e)],
                 stream_raised = None\<rparr>
            | Some e' \<Rightarrow> \<lparr>chunks = ts, stream_events = evs, stream_raised = Some e'\<rparr>)
      else \<lparr>chunks = ts, stream_events = evs, stream_raised = Some e\<rparr>)"

text \<open>
  The framework sends each chunk a generator yields as \<open>chunk.encode("utf-8")\<close>. For a
  chunk holding a surrogate code point this raises \<open>UnicodeEncodeError\<close> in the
  framework, outside the generator: the stream ends there and the generator is not
  resumed.
\<close>

definition encodable :: "pystr \<Rightarrow> bool" where
  "encodable chunk = (\<not> list_ex is_surrogate chunk)"

text \<open>
  \<open>for token in streaming_response.response_gen: yield token\<close>: the tokens sent, and how
  the loop ends: the generator is exhausted, it raises inside the \<open>try\<close>, or the framework
  fails to send a token.
\<close>

datatype loop_end = Completed | EngineRaised pyexc | SendFailed pyexc

fun for_tokens :: "token_gen \<Rightarrow> pystr list \<times> loop_end" where
  "for_tokens Exhausted = ([], Completed)"
| "for_tokens (Token t g) =
     (if encodable t
      then (case for_tokens g of (ts, r) \<Rightarrow> (t # ts, r))
      else ([], SendFailed UnicodeEncodeError))"
| "for_tokens (GenRaise e) = ([], EngineRaised e)"

fun after_loop :: "stdout \<Rightarrow> event list \<Rightarrow> pystr list \<times> loop_end \<Rightarrow> stream_out" where
  "after_loop out evs (ts, Completed) =
     \<lparr>chunks = ts, stream_events = evs, stream_raised = None\<rparr>"
| "after_loop out evs (ts, EngineRaised e) = except_clause out ts evs e"
| "after_loop out evs (ts, SendFailed e) =
     \<lparr>chunks = ts, stream_events = evs, stream_raised = Some e\<rparr>"

definition event_stream :: "stdout \<Rightarrow> engine option \<Rightarrow> pystr \<Rightarrow> stream_out" where
  "event_stream out qe question =
     (case engine_query qe question of
        Inl e \<Rightarrow> except_clause out [] [EngineQuery question] e
      | Inr g \<Rightarrow> after_loop out [EngineQuery question] (for_tokens g))"

text \<open>
  The generators of the two fixed answers yield one text each; the fixed texts hold no
  surrogate, so the framework sends them.
\<close>

definition index_error_stream :: stream_out where
  "index_error_stream =
     \<lparr>chunks = [index_error_text], stream_events = [], stream_raised = None\<rparr>"

definition validation_error_stream :: stream_out where
  "validation_error_stream =
     \<lparr>chunks = [validation_error_text], stream_events = [], stream_raised = None\<rparr>"

text \<open>Iterating a response's generator to its end.\<close>

fun iterate :: "stdout \<Rightarrow> engine option \<Rightarrow> stream_gen \<Rightarrow> stream_out" where
  "iterate out qe IndexErrorStream = index_error_stream"
| "iterate out qe ValidationErrorStream = validation_error_stream"
| "iterate out qe (EventStream question) = event_stream out qe question"

section \<open>The chat handler\<close>

definition message_key :: pystr where
  "message_key = ascii ''message''"

text \<open>\<open>not question or len(question.strip()) < 2\<close>: only a \<open>str\<close> has \<open>strip\<close>.\<close>

definition invalid_question :: "json \<Rightarrow> pyexc + bool" where
  "invalid_question question =
     (if \<not> truthy question then Inr True
      else case question of
             JStr s \<Rightarrow> Inr (length (strip s) < 2)
           | _ \<Rightarrow> Inl AttributeError)"

definition question_text :: "json \<Rightarrow> pystr" where
  "question_text question = (case question of JStr s \<Rightarrow> s | _ \<Rightarrow> [])"

text \<open>
  The body of \<open>async with semaphore\<close>. The request body is \<open>None\<close> when it is not valid
  JSON (\<open>request.json()\<close> raises), else the parsed value. The \<open>print\<close> of the question
  stands outside any \<open>try\<close>: an exception it raises leaves the handler.
\<close>

definition gated_section :: "stdout \<Rightarrow> json option \<Rightarrow> event list \<times> (pyexc + response)" where
  "gated_section out request =
     (case request of
        None \<Rightarrow> ([RequestJson], Inl JSONDecodeError)
      | Some body \<Rightarrow>
          (case py_get body message_key (JStr []) of
             Inl e \<Rightarrow> ([RequestJson], Inl e)
           | Inr question \<Rightarrow>
               (case invalid_question question of
                  Inl e \<Rightarrow> ([RequestJson], Inl e)
                | Inr True \<Rightarrow>
                    ([RequestJson],
                     Inr (StreamingResponse ValidationErrorStream ''text/event-stream''))
                | Inr False \<Rightarrow>
                    (case out (question_log (question_text question)) of
                       Some e \<Rightarrow> ([RequestJson], Inl e)
                     | None \<Rightarrow>
                         ([RequestJson, Print (question_log (question_text question))],
                          Inr (StreamingResponse (EventStream (question_text question))
                                 ''text/event-stream''))))))"

text \<open>
  The handler, run without waiting at the semaphore. Leaving \<open>async with\<close>, by
  \<open>return\<close> or by an exception, releases the semaphore.
\<close>

definition chat ::
  "stdout \<Rightarrow> engine option \<Rightarrow> json option \<Rightarrow> event list \<times> (pyexc + response)" where
  "chat out qe request =
     (case qe of
        None \<Rightarrow> ([], Inr (StreamingResponse IndexErrorStream ''text/event-stream''))
      | Some _ \<Rightarrow>
          (case gated_section out request of
             (evs, r) \<Rightarrow> ([SemAcquire] @ evs @ [SemRelease], r)))"

text \<open>
  One \<open>POST /chat\<close> from request to closed stream: the handler, then the framework
  iterating the returned generator. \<open>http_body\<close> is the chunks of the token stream. An
  exception that leaves the handler is answered by the framework with status 500, and
  no token stream exists.
\<close>

record http_result =
  http_status :: nat
  http_body :: "pystr list"
  http_events :: "event list"
  http_raised :: "pyexc option"

definition post_chat :: "stdout \<Rightarrow> engine option \<Rightarrow> json option \<Rightarrow> http_result" where
  "post_chat out qe request =
     (case chat out qe request of
        (evs, Inl e) \<Rightarrow>
          \<lparr>http_status = 500, http_body = [], http_events = evs, http_raised = Some e\<rparr>
      | (evs, Inr r) \<Rightarrow>
          (let res = iterate out qe (body_iterator r)
           in \<lparr>http_status = status_code r, http_body = chunks res,
               http_events = evs @ stream_events res, http_raised = stream_raised res\<rparr>))"

section \<open>Requests interleaved on the event loop\<close>

text \<open>
  The framework resumes a response's generator once per chunk. \<open>resume\<close> runs the
  generator from where it is suspended to its next \<open>yield\<close> (the chunk is returned) or
  to its end. In \<open>event_stream\<close> the first resumption calls the query engine and pulls the
  first token; the generator then stays suspended inside the \<open>for\<close> loop (at the
  \<open>yield\<close>, then at \<open>asyncio.sleep\<close>) with the rest of the tokens still to pull.
\<close>

datatype stream_pc =
    Unstarted stream_gen
  | InLoop token_gen
  | AfterYield
  | Closed
  | Aborted pyexc

definition on_exception :: "stdout \<Rightarrow> pyexc \<Rightarrow> pystr option \<times> event list \<times> stream_pc" where
  "on_exception out e =
     (if derives_Exception e
      then (case out (streaming_error_log e) of
              None \<Rightarrow> (Some apology_text, [Print (streaming_error_log e)], AfterYield)
            | Some e' \<Rightarrow> (None, [], Aborted e'))
      else (None, [], Aborted e))"

fun next_token :: "stdout \<Rightarrow> token_gen \<Rightarrow> pystr option \<times> event list \<times> stream_pc" where
  "next_token out Exhausted = (None, [], Closed)"
| "next_token out (Token t g) =
     (if encodable t then (Some t, [], InLoop g) else (None, [], Aborted UnicodeEncodeError))"
| "next_token out (GenRaise e) = on_exception out e"

fun resume ::
  "stdout \<Rightarrow> engine option \<Rightarrow> stream_pc \<Rightarrow> pystr option \<times> event list \<times> stream_pc" where
  "resume out qe (Unstarted IndexErrorStream) = (Some index_error_text, [], AfterYield)"
| "resume out qe (Unstarted ValidationErrorStream) =
     (Some validation_error_text, [], AfterYield)"
| "resume out qe (Unstarted (EventStream question)) =
     (case (case engine_query qe question of
              Inl e \<Rightarrow> on_exception out e
            | Inr g \<Rightarrow> next_token out g) of
        (c, evs, p) \<Rightarrow> (c, EngineQuery question # evs, p))"
| "resume out qe (InLoop g) = next_token out g"
| "resume out qe AfterYield = (None, [], Closed)"
| "resume out qe Closed = (None, [], Closed)"
| "resume out qe (Aborted e) = (None, [], Aborted e)"

text \<open>
  Where a request's handler coroutine stands: not started, suspended in
  \<open>semaphore.acquire()\<close>, inside \<open>async with\<close> (suspended at \<open>await request.json()\<close>),
  returned with its response being streamed, or left by an exception.
\<close>

datatype handler_pc =
    Received
  | WaitingGate
  | InGate
  | Returned response stream_pc
  | Raised pyexc

record request =
  req_body :: "json option"
  pc :: handler_pc
  sent :: "pystr list"
  req_events :: "event list"

record system =
  sys_stdout :: stdout
  query_engine :: "engine option"
  semaphore :: nat
  requests :: "request list"

text \<open>
  The event loop runs one request from its suspension point to the next. \<open>acquire\<close>
  takes a slot when the counter is positive and waits otherwise; leaving \<open>async with\<close>
  gives the slot back. Which waiting request gets a freed slot is left to the schedule;
  resuming a request that still has to wait changes nothing.
\<close>

definition acquire :: "nat \<Rightarrow> request \<Rightarrow> nat \<times> request" where
  "acquire sem r =
     (if 0 < sem
      then (sem - 1, r\<lparr>pc := InGate, req_events := req_events r @ [SemAcquire]\<rparr>)
      else (sem, r\<lparr>pc := WaitingGate\<rparr>))"

definition handler_step ::
  "stdout \<Rightarrow> engine option \<Rightarrow> nat \<Rightarrow> request \<Rightarrow> nat \<times> request" where
  "handler_step out qe sem r =
     (case pc r of
        Received \<Rightarrow>
          (case qe of
             None \<Rightarrow>
               (sem, r\<lparr>pc := Returned (StreamingResponse IndexErrorStream ''text/event-stream'')
                                     (Unstarted IndexErrorStream)\<rparr>)
           | Some _ \<Rightarrow> acquire sem r)
      | WaitingGate \<Rightarrow> acquire sem r
      | InGate \<Rightarrow>
          (case gated_section out (req_body r) of
             (evs, res) \<Rightarrow>
               (sem + 1,
                r\<lparr>pc := (case res of
                            Inl e \<Rightarrow> Raised e
                          | Inr resp \<Rightarrow> Returned resp (Unstarted (body_iterator resp))),
                  req_events := req_events r @ evs @ [SemRelease]\<rparr>))
      | Returned resp sp \<Rightarrow>
          (case resume out qe sp of
             (c, evs, sp') \<Rightarrow>
               (sem,
                r\<lparr>pc := Returned resp sp',
                  sent := sent r @ (case c of None \<Rightarrow> [] | Some t \<Rightarrow> [t]),
                  req_events := req_events r @ evs\<rparr>))
      | Raised e \<Rightarrow> (sem, r))"

definition step :: "system \<Rightarrow> nat \<Rightarrow> system" where
  "step s i =
     (if i < length (requests s)
      then (case handler_step (sys_stdout s) (query_engine s) (semaphore s) (requests s ! i) of
              (sem, r) \<Rightarrow> s\<lparr>semaphore := sem, requests := (requests s)[i := r]\<rparr>)
      else s)"

text \<open>A schedule names, in order, the request the event loop resumes next.\<close>

definition run :: "system \<Rightarrow> nat list \<Rightarrow> system" where
  "run s sched = foldl step s sched"

text \<open>\<open>semaphore = asyncio.Semaphore(2)\<close>, and the requests as they arrive.\<close>

definition new_request :: "json option \<Rightarrow> request" where
  "new_request b = \<lparr>req_body = b, pc = Received, sent = [], req_events = []\<rparr>"

definition init :: "stdout \<Rightarrow> engine option \<Rightarrow> json option list \<Rightarrow> system" where
  "init out qe bodies =
     \<lparr>sys_stdout = out, query_engine = qe, semaphore = 2, requests = map new_request bodies\<rparr>"

text \<open>
  A request holds a gate slot between acquire and release. Its generation phase runs
  from the call of the query engine until the token generator is exhausted.
\<close>

fun holds_slot :: "request \<Rightarrow> bool" where
  "holds_slot r = (case pc r of InGate \<Rightarrow> True | _ \<Rightarrow> False)"

fun waits_at_gate :: "request \<Rightarrow> bool" where
  "waits_at_gate r = (case pc r of WaitingGate \<Rightarrow> True | _ \<Rightarrow> False)"

fun generating :: "request \<Rightarrow> bool" where
  "generating r = (case pc r of Returned resp (InLoop g) \<Rightarrow> True | _ \<Rightarrow> False)"

definition holders :: "request list \<Rightarrow> nat" where
  "holders rs = length (filter holds_slot rs)"

text \<open>
  \<open>n\<close> resumptions of a generator in a row: the chunks sent, the events, and where the
  generator then stands. \<open>closing res\<close> is the same triple for a generator that has
  produced \<open>res\<close> and is closed, or was left by the exception \<open>res\<close> records.
\<close>

fun resume_all ::
  "nat \<Rightarrow> stdout \<Rightarrow> engine option \<Rightarrow> stream_pc \<Rightarrow> pystr list \<times> event list \<times> stream_pc" where
  "resume_all 0 out qe sp = ([], [], sp)"
| "resume_all (Suc n) out qe sp =
     (case resume out qe sp of
        (c, evs, sp') \<Rightarrow>
          (case resume_all n out qe sp' of
             (cs, evs', sp'') \<Rightarrow>
               ((case c of None \<Rightarrow> [] | Some t \<Rightarrow> [t]) @ cs, evs @ evs', sp'')))"

definition closing :: "stream_out \<Rightarrow> pystr list \<times> event list \<times> stream_pc" where
  "closing res =
     (chunks res, stream_events res,
      (case stream_raised res of None \<Rightarrow> Closed | Some e \<Rightarrow> Aborted e))"

text \<open>
  What holds of every state reached without a query engine: each handler is not started
  or has returned, and has never acquired the semaphore.
\<close>

definition degraded_inv :: "system \<Rightarrow> bool" where
  "degraded_inv s = (query_engine s = None \<and>
     (\<forall>r \<in> set (requests s). (pc r = Received \<or> (\<exists>resp sp. pc r = Returned resp sp)) \<and>
        SemAcquire \<notin> set (req_events r)))"

section \<open>The health check\<close>

text \<open>
  \<open>root()\<close> takes no argument and reads no global: it returns the same \<open>dict\<close>, which the
  framework sends as JSON with its default status 200.
\<close>

definition root :: json where
  "root = JObj [(message_key, JStr (ascii ''Backend is running. Auth: Zenoharsh''))]"

record json_response =
  json_status :: nat
  json_content :: json

definition get_root :: "system \<Rightarrow> json_response \<times> system" where
  "get_root s = (\<lparr>json_status = 200, json_content = root\<rparr>, s)"

section \<open>Startup: the index and the query engine\<close>

definition PDF_DIR :: string where
  "PDF_DIR = ''./data''"

definition STORAGE_DIR :: string where
  "STORAGE_DIR = ''./storage''"

definition OLLAMA_MODEL :: string where
  "OLLAMA_MODEL = ''gemma2:2b''"

record llm_client =
  model :: string
  request_timeout :: nat

definition llm :: llm_client where
  "llm = \<lparr>model = OLLAMA_MODEL, request_timeout = 120\<rparr>"

definition qa_prompt_tmpl_str :: string where
  "qa_prompt_tmpl_str =
     ''You are a professional AI assistant for the Dattopant Thengadi Foundation. '' @
     ''Your role is to answer questions accurately and concisely based ONLY on the provided context documents.'' @ [CHR 0x0A] @
     ''If the context does not contain the answer, state that you do not have enough information.'' @ [CHR 0x0A] @
     ''---------------------'' @ [CHR 0x0A] @
     ''CONTEXT: {context_str}'' @ [CHR 0x0A] @
     ''---------------------'' @ [CHR 0x0A] @
     ''QUESTION: {query_str}'' @ [CHR 0x0A] @
     ''ANSWER (be clear and helpful):''"

text \<open>The keyword arguments of \<open>index.as_query_engine\<close>.\<close>

record engine_config =
  cfg_llm :: llm_client
  streaming :: bool
  text_qa_template :: string
  similarity_top_k :: nat

text \<open>
  The library calls of the startup code, with the arguments the code fixes, and the
  lines it printed.
\<close>

datatype lib_call =
    PathExists string
  | SentenceSplitter nat nat
  | LoadData string
  | GetNodesFromDocuments
  | VectorStoreIndex
  | Persist string
  | FromDefaults string
  | LoadIndexFromStorage
  | AsQueryEngine engine_config
  | Printed pystr

text \<open>
  The libraries are parameters: each call returns a value of a type the program only
  passes on (splitter, documents, nodes, index, storage context, query engine) or raises.
\<close>

record ('p, 'd, 'n, 'i, 'c, 'e) libs =
  path_exists :: "string \<Rightarrow> pyexc + bool"
  sentence_splitter :: "nat \<Rightarrow> nat \<Rightarrow> pyexc + 'p"
  load_data :: "string \<Rightarrow> pyexc + 'd"
  get_nodes_from_documents :: "'p \<Rightarrow> 'd \<Rightarrow> pyexc + 'n"
  vector_store_index :: "'n \<Rightarrow> pyexc + 'i"
  persist :: "'i \<Rightarrow> string \<Rightarrow> pyexc + unit"
  from_defaults :: "string \<Rightarrow> pyexc + 'c"
  load_index_from_storage :: "'c \<Rightarrow> pyexc + 'i"
  as_query_engine :: "'i \<Rightarrow> engine_config \<Rightarrow> pyexc + 'e"

text \<open>
  Statements in sequence: the calls made so far, and the value or the exception that
  ended the sequence.
\<close>

type_synonym 'a traced = "lib_call list \<times> (pyexc + 'a)"

definition call :: "lib_call \<Rightarrow> pyexc + 'a \<Rightarrow> 'a traced" where
  "call c r = ([c], r)"

definition print :: "stdout \<Rightarrow> pystr \<Rightarrow> unit traced" where
  "print out s = (case out s of None \<Rightarrow> ([Printed s], Inr ()) | Some e \<Rightarrow> ([], Inl e))"

definition finish :: "'a \<Rightarrow> 'a traced" where
  "finish x = ([], Inr x)"

definition and_then :: "'a traced \<Rightarrow> ('a \<Rightarrow> 'b traced) \<Rightarrow> 'b traced" where
  "and_then m f =
     (case m of
        (t, Inl e) \<Rightarrow> (t, Inl e)
      | (t, Inr x) \<Rightarrow> (case f x of (t', r) \<Rightarrow> (t @ t', r)))"

definition index_setup_error_log :: "pyexc \<Rightarrow> pystr" where
  "index_setup_error_log e = [0x274C] @ ascii '' Error during index setup: '' @ exc_str e"

definition no_storage_line :: pystr where
  "no_storage_line = ascii ''No storage found. Loading documents & building new index...''"

definition index_built_line :: pystr where
  "index_built_line = [0x1F4BE] @ ascii '' Index built and saved to disk.''"

definition loading_line :: pystr where
  "loading_line = ascii ''Loading saved vector index from disk...''"

definition index_loaded_line :: pystr where
  "index_loaded_line = [0x2705] @ ascii '' Index loaded successfully.''"

text \<open>The body of the \<open>try\<close> statement.\<close>

definition build_new_index :: "stdout \<Rightarrow> ('p, 'd, 'n, 'i, 'c, 'e) libs \<Rightarrow> 'i traced" where
  "build_new_index out L =
     and_then (print out no_storage_line)
       (\<lambda>_. and_then (call (SentenceSplitter 350 35) (sentence_splitter L 350 35))
       (\<lambda>parser. and_then (call (LoadData PDF_DIR) (load_data L PDF_DIR))
       (\<lambda>documents. and_then (call GetNodesFromDocuments
                                 (get_nodes_from_documents L parser documents))
       (\<lambda>nodes. and_then (call VectorStoreIndex (vector_store_index L nodes))
       (\<lambda>index. and_then (call (Persist STORAGE_DIR) (persist L index STORAGE_DIR))
       (\<lambda>_. and_then (print out index_built_line)
       (\<lambda>_. finish index)))))))"

definition load_saved_index :: "stdout \<Rightarrow> ('p, 'd, 'n, 'i, 'c, 'e) libs \<Rightarrow> 'i traced" where
  "load_saved_index out L =
     and_then (print out loading_line)
       (\<lambda>_. and_then (call (FromDefaults STORAGE_DIR) (from_defaults L STORAGE_DIR))
       (\<lambda>storage_context. and_then (call LoadIndexFromStorage
                                       (load_index_from_storage L storage_context))
       (\<lambda>index. and_then (print out index_loaded_line)
       (\<lambda>_. finish index))))"

definition try_body :: "stdout \<Rightarrow> ('p, 'd, 'n, 'i, 'c, 'e) libs \<Rightarrow> 'i traced" where
  "try_body out L =
     and_then (call (PathExists STORAGE_DIR) (path_exists L STORAGE_DIR))
       (\<lambda>exists. if \<not> exists then build_new_index out L else load_saved_index out L)"

text \<open>
  The \<open>try\<close> statement with its \<open>except Exception as e\<close> clause, which prints the error
  and sets \<open>index = None\<close>: the global \<open>index\<close> is the index or \<open>None\<close>. An exception
  that does not derive from \<open>Exception\<close> leaves the module, and so does an exception
  raised by the \<open>print\<close> of the clause.
\<close>

definition index_setup :: "stdout \<Rightarrow> ('p, 'd, 'n, 'i, 'c, 'e) libs \<Rightarrow> 'i option traced" where
  "index_setup out L =
     (case try_body out L of
        (t, Inr index) \<Rightarrow> (t, Inr (Some index))
      | (t, Inl e) \<Rightarrow>
          (if derives_Exception e
           then (case out (index_setup_error_log e) of
                   None \<Rightarrow> (t @ [Printed (index_setup_error_log e)], Inr None)
                 | Some e' \<Rightarrow> (t, Inl e'))
           else (t, Inl e)))"

definition engine_settings :: engine_config where
  "engine_settings =
     \<lparr>cfg_llm = llm, streaming = True, text_qa_template = qa_prompt_tmpl_str,
      similarity_top_k = 3\<rparr>"

text \<open>
  \<open>if index: query_engine = index.as_query_engine(...) else: query_engine = None\<close>.
  An index object is true (its class defines neither \<open>__bool__\<close> nor \<open>__len__\<close>), so
  the test separates an index from \<open>None\<close>.
\<close>

definition query_engine_setup ::
  "('p, 'd, 'n, 'i, 'c, 'e) libs \<Rightarrow> 'i option \<Rightarrow> 'e option traced" where
  "query_engine_setup L index =
     (case index of
        Some i \<Rightarrow>
          and_then (call (AsQueryEngine engine_settings) (as_query_engine L i engine_settings))
            (\<lambda>qe. finish (Some qe))
      | None \<Rightarrow> finish None)"

text \<open>The module's top level from the index setup on: the globals the handlers read.\<close>

record ('i, 'e) globals =
  g_index :: "'i option"
  g_query_engine :: "'e option"

definition startup ::
  "stdout \<Rightarrow> ('p, 'd, 'n, 'i, 'c, 'e) libs \<Rightarrow> ('i, 'e) globals traced" where
  "startup out L =
     and_then (index_setup out L)
       (\<lambda>index. and_then (query_engine_setup L index)
       (\<lambda>qe. finish \<lparr>g_index = index, g_query_engine = qe\<rparr>))"

text \<open>Recognises the construction of the query engine among the calls.\<close>

fun is_as_query_engine :: "lib_call \<Rightarrow> bool" where
  "is_as_query_engine (AsQueryEngine cfg) = True"
| "is_as_query_engine _ = False"

section \<open>Properties of the chat handler\<close>

lemma strip_Nil: "strip [] = []"
  by (simp add: strip_def)

lemma strip_long_nonempty: "2 \<le> length (strip s) \<Longrightarrow> s \<noteq> []"
  by (auto simp add: strip_Nil)

lemma index_error_ne_validation: "index_error_text \<noteq> validation_error_text"
  by (simp add: index_error_text_def validation_error_text_def)

lemma fixed_texts_encodable:
  "encodable index_error_text \<and> encodable validation_error_text \<and> encodable apology_text"
  by (simp add: encodable_def is_surrogate_def index_error_text_def validation_error_text_def
      apology_text_def ascii_def)

lemma for_tokens_raise:
  "list_all encodable ts \<Longrightarrow> for_tokens (foldr Token ts (GenRaise e)) = (ts, EngineRaised e)"
  by (induction ts) simp_all

lemma gated_section_valid:
  assumes "map_of kvs message_key = Some (JStr s)" and "2 \<le> length (strip s)"
    and "out (question_log s) = None"
  shows "gated_section out (Some (JObj kvs)) =
           ([RequestJson, Print (question_log s)],
            Inr (StreamingResponse (EventStream s) ''text/event-stream''))"
  using assms strip_long_nonempty [of s]
  by (simp add: gated_section_def invalid_question_def question_text_def)

lemma gated_section_unprintable:
  assumes "map_of kvs message_key = Some (JStr s)" and "2 \<le> length (strip s)"
    and "out (question_log s) = Some e"
  shows "gated_section out (Some (JObj kvs)) = ([RequestJson], Inl e)"
  using assms strip_long_nonempty [of s]
  by (simp add: gated_section_def invalid_question_def question_text_def)

lemma gated_section_invalid:
  assumes "py_get body message_key (JStr []) = Inr question"
    and "\<not> truthy question \<or> (\<exists>s. question = JStr s \<and> length (strip s) < 2)"
  shows "gated_section out (Some body) =
           ([RequestJson], Inr (StreamingResponse ValidationErrorStream ''text/event-stream''))"
  using assms
  by (auto simp add: gated_section_def invalid_question_def)

lemma post_chat_invalid:
  assumes "py_get body message_key (JStr []) = Inr question"
    and "\<not> truthy question \<or> (\<exists>s. question = JStr s \<and> length (strip s) < 2)"
  shows "post_chat out (Some f) (Some body) =
           \<lparr>http_status = 200, http_body = [validation_error_text],
            http_events = [SemAcquire, RequestJson, SemRelease], http_raised = None\<rparr>"
  by (simp add: post_chat_def chat_def gated_section_invalid [OF assms]
      StreamingResponse_def validation_error_stream_def)

lemma event_stream_apology:
  assumes "f s = Inl e \<and> ts = [] \<or> f s = Inr (foldr Token ts (GenRaise e))"
    and "list_all encodable ts"
    and "derives_Exception e" and "out (streaming_error_log e) = None"
  shows "event_stream out (Some f) s =
      \<lparr>chunks = ts @ [apology_text],
       stream_events = [EngineQuery s, Print (streaming_error_log e)], stream_raised = None\<rparr>"
  using assms(1)
proof
  assume "f s = Inl e \<and> ts = []"
  then show ?thesis using assms(3,4)
    by (simp add: event_stream_def engine_query_def except_clause_def)
next
  assume "f s = Inr (foldr Token ts (GenRaise e))"
  then show ?thesis using assms(2,3,4)
    by (simp add: event_stream_def engine_query_def except_clause_def for_tokens_raise)
qed

lemma post_chat_valid:
  assumes "map_of kvs message_key = Some (JStr s)" and "2 \<le> length (strip s)"
    and "out (question_log s) = None"
  shows "post_chat out (Some f) (Some (JObj kvs)) =
           \<lparr>http_status = 200, http_body = chunks (event_stream out (Some f) s),
            http_events = [SemAcquire, RequestJson, Print (question_log s), SemRelease] @
                          stream_events (event_stream out (Some f) s),
            http_raised = stream_raised (event_stream out (Some f) s)\<rparr>"
  using gated_section_valid [of kvs s out] assms
  by (simp add: post_chat_def chat_def StreamingResponse_def Let_def)

text \<open>
  Where no exception of the query engine is ever raised: a valid question that the
  handler cannot print ends the handler before the query, and a token the framework
  cannot send ends the stream there, whatever the generator would have done next.
\<close>

lemma unprintable_question_never_queries:
  assumes "map_of kvs message_key = Some (JStr s)" and "2 \<le> length (strip s)"
    and "out (question_log s) = Some e"
  shows "post_chat out (Some f) (Some (JObj kvs)) =
           \<lparr>http_status = 500, http_body = [],
            http_events = [SemAcquire, RequestJson, SemRelease], http_raised = Some e\<rparr>"
  using gated_section_unprintable [of kvs s out e] assms
  by (simp add: post_chat_def chat_def)

lemma for_tokens_unsendable:
  "list_all encodable ts \<Longrightarrow> \<not> encodable t \<Longrightarrow>
   for_tokens (foldr Token ts (Token t g)) = (ts, SendFailed UnicodeEncodeError)"
  by (induction ts) simp_all

lemma unsendable_token_ends_stream:
  assumes "map_of kvs message_key = Some (JStr s)" and "2 \<le> length (strip s)"
    and "out (question_log s) = None"
    and "f s = Inr (foldr Token ts (Token t g))"
    and "list_all encodable ts" and "\<not> encodable t"
  shows "post_chat out (Some f) (Some (JObj kvs)) =
           \<lparr>http_status = 200, http_body = ts,
            http_events = [SemAcquire, RequestJson, Print (question_log s), SemRelease,
                           EngineQuery s],
            http_raised = Some UnicodeEncodeError\<rparr>"
  using post_chat_valid [of kvs s out f] for_tokens_unsendable [of ts t g] assms
  by (simp add: event_stream_def engine_query_def)

text \<open>
  C2. Without a query engine, \<open>POST /chat\<close> answers every request body, parsable or
  not, with a stream whose whole content is the fixed degraded-mode text. The handler
  has no effect at all: it does not read the body (so nothing is validated), and neither
  the handler nor the stream calls the query engine.
\<close>

theorem C2_degraded_mode_fixed_text:
  "post_chat out None request =
     \<lparr>http_status = 200, http_body = [index_error_text], http_events = [],
      http_raised = None\<rparr>
   \<and> chat out None request =
       ([], Inr (StreamingResponse IndexErrorStream ''text/event-stream''))"
  by (simp add: post_chat_def chat_def StreamingResponse_def index_error_stream_def)

text \<open>
  C3. The validation of lines 104-108 is reached with a query engine only (without one,
  C2 applies to every request). There, for every request whose message, the value of
  \<open>body.get("message", "")\<close>, is empty (its truth value is false, as for the empty
  string) or is a string shorter than 2 characters after trimming, the response has
  status 200 and its stream is exactly the validation text; the only effects are the
  gate's acquire and release around reading the body, so the query engine is never
  called.
\<close>

theorem C3_short_message_validation_error:
  assumes "py_get body message_key (JStr []) = Inr question"
    and "\<not> truthy question \<or> (\<exists>s. question = JStr s \<and> length (strip s) < 2)"
  shows "post_chat out (Some f) (Some body) =
           \<lparr>http_status = 200, http_body = [validation_error_text],
            http_events = [SemAcquire, RequestJson, SemRelease], http_raised = None\<rparr>
         \<and> (\<forall>q. EngineQuery q \<notin> set (http_events (post_chat out (Some f) (Some body))))"
  by (simp add: post_chat_invalid [OF assms])

theorem C3_short_message_witness:
  "post_chat utf8_stdout (Some (\<lambda>q. Inr (Token (ascii ''x'') Exhausted)))
     (Some (JObj [(ascii ''message'', JStr (ascii ''  a ''))])) =
     \<lparr>http_status = 200, http_body = [validation_error_text],
      http_events = [SemAcquire, RequestJson, SemRelease], http_raised = None\<rparr>
   \<and> post_chat utf8_stdout (Some (\<lambda>q. Inr (Token (ascii ''x'') Exhausted)))
     (Some (JObj [(ascii ''message'', JStr [])])) =
     \<lparr>http_status = 200, http_body = [validation_error_text],
      http_events = [SemAcquire, RequestJson, SemRelease], http_raised = None\<rparr>
   \<and> post_chat utf8_stdout (Some (\<lambda>q. Inr (Token (ascii ''x'') Exhausted)))
     (Some (JObj [(ascii ''message'', JNull)])) =
     \<lparr>http_status = 200, http_body = [validation_error_text],
      http_events = [SemAcquire, RequestJson, SemRelease], http_raised = None\<rparr>"
  using C3_short_message_validation_error
      [of "JObj [(ascii ''message'', JStr (ascii ''  a ''))]" "JStr (ascii ''  a '')"
        utf8_stdout "\<lambda>q. Inr (Token (ascii ''x'') Exhausted)"]
    C3_short_message_validation_error
      [of "JObj [(ascii ''message'', JStr [])]" "JStr []"
        utf8_stdout "\<lambda>q. Inr (Token (ascii ''x'') Exhausted)"]
    C3_short_message_validation_error
      [of "JObj [(ascii ''message'', JNull)]" JNull
        utf8_stdout "\<lambda>q. Inr (Token (ascii ''x'') Exhausted)"]
  by (simp add: message_key_def ascii_def strip_def py_isspace_def)

text \<open>
  C9, as stated, fails for a JSON body that is not an object: the array \<open>[]\<close> has no
  \<open>message\<close> key, \<open>body.get\<close> raises \<open>AttributeError\<close> in the handler, and the request is
  answered with status 500 and no stream instead of the validation text.
\<close>

theorem C9_counterexample_non_object_body:
  "http_status (post_chat utf8_stdout (Some (\<lambda>q. Inr (Token (ascii ''x'') Exhausted)))
                  (Some (JArr []))) = 500
   \<and> http_raised (post_chat utf8_stdout (Some (\<lambda>q. Inr (Token (ascii ''x'') Exhausted)))
                  (Some (JArr []))) = Some AttributeError
   \<and> http_body (post_chat utf8_stdout (Some (\<lambda>q. Inr (Token (ascii ''x'') Exhausted)))
                  (Some (JArr []))) = []"
  by (simp add: post_chat_def chat_def gated_section_def)

text \<open>
  C9, amended: for a JSON body that is an object. Lines 101-108 run with a query engine
  only. There, when the JSON object has no \<open>message\<close> key, \<open>body.get\<close> returns the default
  empty string, the handler raises nothing, and the response is the validation text
  with status 200.
\<close>

theorem C9_missing_message_validation_error:
  assumes "map_of kvs message_key = None"
  shows "py_get (JObj kvs) message_key (JStr []) = Inr (JStr [])
         \<and> post_chat out (Some f) (Some (JObj kvs)) =
             \<lparr>http_status = 200, http_body = [validation_error_text],
              http_events = [SemAcquire, RequestJson, SemRelease], http_raised = None\<rparr>"
proof -
  have g: "py_get (JObj kvs) message_key (JStr []) = Inr (JStr [])"
    using assms by simp
  have "post_chat out (Some f) (Some (JObj kvs)) =
           \<lparr>http_status = 200, http_body = [validation_error_text],
            http_events = [SemAcquire, RequestJson, SemRelease], http_raised = None\<rparr>"
    by (rule post_chat_invalid [OF g]) simp
  with g show ?thesis by simp
qed

theorem C9_missing_message_witness:
  "post_chat utf8_stdout (Some (\<lambda>q. Inr (Token (ascii ''x'') Exhausted)))
     (Some (JObj [(ascii ''text'', JStr (ascii ''What is the mission?''))])) =
     \<lparr>http_status = 200, http_body = [validation_error_text],
      http_events = [SemAcquire, RequestJson, SemRelease], http_raised = None\<rparr>"
  using C9_missing_message_validation_error [of "[(ascii ''text'', JStr (ascii ''What is the mission?''))]" utf8_stdout
        "\<lambda>q. Inr (Token (ascii ''x'') Exhausted)"]
  by (simp add: message_key_def ascii_def)

text \<open>
  C4, as stated, fails when the error's log line cannot be printed. In the \<open>except\<close>
  clause \<open>print(f"... {e}")\<close> stands before \<open>yield\<close>: on a UTF-8 standard output, for an
  exception whose text holds a lone surrogate, the \<open>print\<close> raises \<open>UnicodeEncodeError\<close>
  inside the clause, which leaves the generator: the stream ends by that exception
  after the token already sent, and no apology is emitted.
\<close>

theorem C4_counterexample_unprintable_error:
  "post_chat utf8_stdout
     (Some (\<lambda>q. Inr (Token (ascii ''The'')
                      (GenRaise (PyExc True ''OSError'' (ascii ''cannot read '' @ [0xDC80]))))))
     (Some (JObj [(message_key, JStr (ascii ''What is the mission?''))])) =
   \<lparr>http_status = 200, http_body = [ascii ''The''],
    http_events = [SemAcquire, RequestJson, Print (question_log (ascii ''What is the mission?'')),
                   SemRelease, EngineQuery (ascii ''What is the mission?'')],
    http_raised = Some UnicodeEncodeError\<rparr>"
  by (simp add: post_chat_def chat_def gated_section_def invalid_question_def question_text_def
      message_key_def ascii_def strip_def py_isspace_def StreamingResponse_def Let_def
      event_stream_def engine_query_def except_clause_def utf8_stdout_def is_surrogate_def
      question_log_def streaming_error_log_def encodable_def)

text \<open>
  C4, amended: when the error's log line can be printed. For a request that passes
  validation and whose stream is started (query engine available, message a string of at
  least 2 characters after trimming, its log line printed by the handler): if the query
  raises an exception \<open>e\<close>, or returns a generator that yields the tokens \<open>ts\<close>, each
  sent by the framework, and then raises \<open>e\<close>, where \<open>e\<close> is an \<open>Exception\<close> whose log
  line is printed, then the stream is the tokens \<open>ts\<close>, unchanged, followed by exactly
  one apology, and the stream ends without raising. (Before the exception is raised,
  nothing of the claim applies: a handler that cannot print the question never calls
  the query engine, and a token the framework cannot send ends the stream before the
  generator is pulled again.)
\<close>

theorem C4_stream_error_apology:
  assumes "map_of kvs message_key = Some (JStr s)" and "2 \<le> length (strip s)"
    and "out (question_log s) = None"
    and "f s = Inl e \<and> ts = [] \<or> f s = Inr (foldr Token ts (GenRaise e))"
    and "list_all encodable ts"
    and "derives_Exception e"
    and "out (streaming_error_log e) = None"
  shows "post_chat out (Some f) (Some (JObj kvs)) =
           \<lparr>http_status = 200, http_body = ts @ [apology_text],
            http_events = [SemAcquire, RequestJson, Print (question_log s), SemRelease,
                           EngineQuery s, Print (streaming_error_log e)],
            http_raised = None\<rparr>"
  using post_chat_valid [of kvs s out f] event_stream_apology [of f s e ts out] assms
  by simp

theorem C4_stream_error_witness:
  "post_chat utf8_stdout (Some (\<lambda>q. Inr (Token (ascii ''The'') (Token (ascii '' DTF'')
        (GenRaise (PyExc True ''ReadTimeout'' (ascii ''timed out'')))))))
     (Some (JObj [(ascii ''message'', JStr (ascii ''What is the mission?''))])) =
   \<lparr>http_status = 200, http_body = [ascii ''The'', ascii '' DTF'', apology_text],
    http_events = [SemAcquire, RequestJson, Print (question_log (ascii ''What is the mission?'')),
                   SemRelease, EngineQuery (ascii ''What is the mission?''),
                   Print (streaming_error_log (PyExc True ''ReadTimeout'' (ascii ''timed out'')))],
    http_raised = None\<rparr>"
  using C4_stream_error_apology
    [of "[(ascii ''message'', JStr (ascii ''What is the mission?''))]"
      "ascii ''What is the mission?''" utf8_stdout
      "\<lambda>q. Inr (Token (ascii ''The'') (Token (ascii '' DTF'')
        (GenRaise (PyExc True ''ReadTimeout'' (ascii ''timed out'')))))"
      "PyExc True ''ReadTimeout'' (ascii ''timed out'')"
      "[ascii ''The'', ascii '' DTF'']"]
  by (simp add: message_key_def ascii_def strip_def py_isspace_def utf8_stdout_def
      is_surrogate_def question_log_def streaming_error_log_def encodable_def)

lemma gated_section_raises:
  assumes "request = None \<or> (\<exists>b. request = Some b \<and> (\<forall>kvs. b \<noteq> JObj kvs)) \<or>
           (\<exists>kvs v. request = Some (JObj kvs) \<and> map_of kvs message_key = Some v \<and>
                    truthy v \<and> (\<forall>s. v \<noteq> JStr s)) \<or>
           (\<exists>kvs s e. request = Some (JObj kvs) \<and> map_of kvs message_key = Some (JStr s) \<and>
                    2 \<le> length (strip s) \<and> out (question_log s) = Some e)"
  shows "\<exists>evs e. gated_section out request = (evs, Inl e)"
  using assms
proof (elim disjE exE conjE)
  assume "request = None"
  then show ?thesis by (simp add: gated_section_def)
next
  fix b assume "request = Some b" "\<forall>kvs. b \<noteq> JObj kvs"
  then show ?thesis by (cases b) (simp_all add: gated_section_def)
next
  fix kvs v
  assume "request = Some (JObj kvs)" "map_of kvs message_key = Some v" "truthy v"
    "\<forall>s. v \<noteq> JStr s"
  then show ?thesis
    by (cases v) (simp_all add: gated_section_def invalid_question_def)
next
  fix kvs s e
  assume "request = Some (JObj kvs)" "map_of kvs message_key = Some (JStr s)"
    "2 \<le> length (strip s)" "out (question_log s) = Some e"
  then show ?thesis
    using gated_section_unprintable [of kvs s out e] by simp
qed

text \<open>
  C5, as stated, fails with a query engine available, on a UTF-8 standard output: the
  handler raises, and the request is answered with status 500 and no stream, for
  \<open>{"message": 5}\<close> (\<open>(5).strip\<close> raises \<open>AttributeError\<close>), for a valid message holding a
  lone surrogate (the \<open>print\<close> of line 111 raises \<open>UnicodeEncodeError\<close>), for the array
  \<open>[]\<close> (no \<open>get\<close>) and for a body that is not JSON. And a generation error whose log line
  cannot be printed leaves the stream without any text.
\<close>

theorem C5_counterexample_handler_raises:
  "http_status (post_chat utf8_stdout (Some (\<lambda>q. Inr (Token (ascii ''x'') Exhausted)))
                  (Some (JObj [(message_key, JInt 5)]))) = 500
   \<and> http_status (post_chat utf8_stdout (Some (\<lambda>q. Inr (Token (ascii ''x'') Exhausted)))
                  (Some (JObj [(message_key, JStr [0xD83D, 97, 98])]))) = 500
   \<and> http_status (post_chat utf8_stdout (Some (\<lambda>q. Inr (Token (ascii ''x'') Exhausted)))
                  (Some (JArr []))) = 500
   \<and> http_status (post_chat utf8_stdout (Some (\<lambda>q. Inr (Token (ascii ''x'') Exhausted)))
                  None) = 500
   \<and> http_body (post_chat utf8_stdout
                  (Some (\<lambda>q. Inl (PyExc True ''OSError'' (ascii ''cannot read '' @ [0xDC80]))))
                  (Some (JObj [(message_key, JStr (ascii ''What is the mission?''))]))) = []"
  by (simp add: post_chat_def chat_def gated_section_def invalid_question_def question_text_def
      message_key_def ascii_def strip_def py_isspace_def StreamingResponse_def Let_def
      event_stream_def engine_query_def except_clause_def utf8_stdout_def is_surrogate_def
      question_log_def streaming_error_log_def encodable_def)

text \<open>
  C5, amended. The failure is reported in-band, as text on the stream with status 200:
  in degraded mode for every body (the degraded-mode text); with a query engine, for a
  request whose message is empty or a string shorter than 2 characters after trimming
  (the validation text); and for a valid message whose log line the handler prints,
  when the query engine raises an \<open>Exception\<close> whose log line is printed (the tokens
  sent so far, then the apology). With a query engine, the handler raises, and the
  request is answered with status 500 and no token stream, for a body that is not valid
  JSON or not a JSON object, for a message with a true truth value that is not a string,
  and for a valid message whose log line cannot be printed.
\<close>

theorem C5_in_band_or_raise:
  "(http_status (post_chat out None request) = 200 \<and>
    http_body (post_chat out None request) = [index_error_text])
   \<and> (\<forall>body question.
        py_get body message_key (JStr []) = Inr question \<and>
        (\<not> truthy question \<or> (\<exists>s. question = JStr s \<and> length (strip s) < 2)) \<longrightarrow>
        http_status (post_chat out (Some f) (Some body)) = 200 \<and>
        http_body (post_chat out (Some f) (Some body)) = [validation_error_text] \<and>
        http_raised (post_chat out (Some f) (Some body)) = None)
   \<and> (\<forall>kvs s. map_of kvs message_key = Some (JStr s) \<and> 2 \<le> length (strip s) \<and>
        out (question_log s) = None \<longrightarrow>
        http_status (post_chat out (Some f) (Some (JObj kvs))) = 200 \<and>
        (\<forall>e ts. (f s = Inl e \<and> ts = [] \<or> f s = Inr (foldr Token ts (GenRaise e))) \<and>
                list_all encodable ts \<and>
                derives_Exception e \<and> out (streaming_error_log e) = None \<longrightarrow>
           http_body (post_chat out (Some f) (Some (JObj kvs))) = ts @ [apology_text] \<and>
           http_raised (post_chat out (Some f) (Some (JObj kvs))) = None))
   \<and> ((request = None \<or> (\<exists>b. request = Some b \<and> (\<forall>kvs. b \<noteq> JObj kvs)) \<or>
        (\<exists>kvs v. request = Some (JObj kvs) \<and> map_of kvs message_key = Some v \<and>
                 truthy v \<and> (\<forall>s. v \<noteq> JStr s)) \<or>
        (\<exists>kvs s e. request = Some (JObj kvs) \<and> map_of kvs message_key = Some (JStr s) \<and>
                 2 \<le> length (strip s) \<and> out (question_log s) = Some e)) \<longrightarrow>
        http_status (post_chat out (Some f) request) = 500 \<and>
        http_body (post_chat out (Some f) request) = [] \<and>
        (\<exists>e. snd (chat out (Some f) request) = Inl e))"
proof (intro conjI allI impI)
  show "http_status (post_chat out None request) = 200"
    by (simp add: post_chat_def chat_def StreamingResponse_def)
  show "http_body (post_chat out None request) = [index_error_text]"
    by (simp add: post_chat_def chat_def StreamingResponse_def index_error_stream_def)
next
  fix body question
  assume a: "py_get body message_key (JStr []) = Inr question \<and>
        (\<not> truthy question \<or> (\<exists>s. question = JStr s \<and> length (strip s) < 2))"
  then have p: "post_chat out (Some f) (Some body) =
           \<lparr>http_status = 200, http_body = [validation_error_text],
            http_events = [SemAcquire, RequestJson, SemRelease], http_raised = None\<rparr>"
    using post_chat_invalid [of body question out f] by blast
  show "http_status (post_chat out (Some f) (Some body)) = 200" by (simp add: p)
  show "http_body (post_chat out (Some f) (Some body)) = [validation_error_text]"
    by (simp add: p)
  show "http_raised (post_chat out (Some f) (Some body)) = None" by (simp add: p)
next
  fix kvs s
  assume a: "map_of kvs message_key = Some (JStr s) \<and> 2 \<le> length (strip s) \<and>
        out (question_log s) = None"
  then have p: "post_chat out (Some f) (Some (JObj kvs)) =
           \<lparr>http_status = 200, http_body = chunks (event_stream out (Some f) s),
            http_events = [SemAcquire, RequestJson, Print (question_log s), SemRelease] @
                          stream_events (event_stream out (Some f) s),
            http_raised = stream_raised (event_stream out (Some f) s)\<rparr>"
    using post_chat_valid [of kvs s out f] by blast
  show "http_status (post_chat out (Some f) (Some (JObj kvs))) = 200" by (simp add: p)
  fix e ts
  assume b: "(f s = Inl e \<and> ts = [] \<or> f s = Inr (foldr Token ts (GenRaise e))) \<and>
                list_all encodable ts \<and>
                derives_Exception e \<and> out (streaming_error_log e) = None"
  then have q: "event_stream out (Some f) s =
      \<lparr>chunks = ts @ [apology_text],
       stream_events = [EngineQuery s, Print (streaming_error_log e)], stream_raised = None\<rparr>"
    by (intro event_stream_apology) simp_all
  show "http_body (post_chat out (Some f) (Some (JObj kvs))) = ts @ [apology_text]"
    by (simp add: p q)
  show "http_raised (post_chat out (Some f) (Some (JObj kvs))) = None"
    by (simp add: p q)
next
  assume "request = None \<or> (\<exists>b. request = Some b \<and> (\<forall>kvs. b \<noteq> JObj kvs)) \<or>
        (\<exists>kvs v. request = Some (JObj kvs) \<and> map_of kvs message_key = Some v \<and>
                 truthy v \<and> (\<forall>s. v \<noteq> JStr s)) \<or>
        (\<exists>kvs s e. request = Some (JObj kvs) \<and> map_of kvs message_key = Some (JStr s) \<and>
                 2 \<le> length (strip s) \<and> out (question_log s) = Some e)"
  then obtain evs e where g: "gated_section out request = (evs, Inl e)"
    using gated_section_raises [of request out] by blast
  show "http_status (post_chat out (Some f) request) = 500"
    by (simp add: post_chat_def chat_def g)
  show "http_body (post_chat out (Some f) request) = []"
    by (simp add: post_chat_def chat_def g)
  show "\<exists>e. snd (chat out (Some f) request) = Inl e"
    by (simp add: chat_def g)
qed

theorem C5_in_band_witness:
  "http_status (post_chat utf8_stdout (Some (\<lambda>q. Inl (PyExc True ''ConnectError'' [])))
                  (Some (JObj [(ascii ''message'', JStr (ascii '' ''))]))) = 200
   \<and> http_body (post_chat utf8_stdout (Some (\<lambda>q. Inl (PyExc True ''ConnectError'' [])))
                  (Some (JObj [(ascii ''message'', JStr (ascii '' ''))]))) = [validation_error_text]
   \<and> http_status (post_chat utf8_stdout (Some (\<lambda>q. Inl (PyExc True ''ConnectError'' [])))
                  (Some (JObj [(ascii ''message'', JStr (ascii ''hello''))]))) = 200
   \<and> http_body (post_chat utf8_stdout (Some (\<lambda>q. Inl (PyExc True ''ConnectError'' [])))
                  (Some (JObj [(ascii ''message'', JStr (ascii ''hello''))]))) = [apology_text]
   \<and> http_status (post_chat utf8_stdout (Some (\<lambda>q. Inl (PyExc True ''ConnectError'' [])))
                  (Some (JObj [(ascii ''message'', JStr [0xD83D, 97, 98])]))) = 500
   \<and> http_status (post_chat utf8_stdout (Some (\<lambda>q. Inl (PyExc True ''ConnectError'' []))) None) = 500"
proof -
  let ?f = "\<lambda>q::pystr. Inl (PyExc True ''ConnectError'' []) :: pyexc + token_gen"
  note c = C5_in_band_or_raise [of utf8_stdout None ?f]
  note c2 = c [THEN conjunct2, THEN conjunct1]
  note c3 = c [THEN conjunct2, THEN conjunct2, THEN conjunct1]
  note c4 = C5_in_band_or_raise [of utf8_stdout _ ?f, THEN conjunct2, THEN conjunct2, THEN conjunct2]
  have a: "http_status (post_chat utf8_stdout (Some ?f)
                  (Some (JObj [(ascii ''message'', JStr (ascii '' ''))]))) = 200
     \<and> http_body (post_chat utf8_stdout (Some ?f)
                  (Some (JObj [(ascii ''message'', JStr (ascii '' ''))]))) = [validation_error_text]"
    using c2 [THEN spec, THEN spec, of "JObj [(ascii ''message'', JStr (ascii '' ''))]"
                "JStr (ascii '' '')"]
    by (simp add: message_key_def ascii_def strip_def py_isspace_def)
  have b: "http_status (post_chat utf8_stdout (Some ?f)
                  (Some (JObj [(ascii ''message'', JStr (ascii ''hello''))]))) = 200
     \<and> http_body (post_chat utf8_stdout (Some ?f)
                  (Some (JObj [(ascii ''message'', JStr (ascii ''hello''))]))) = [apology_text]"
    using c3 [THEN spec, THEN spec, of "[(ascii ''message'', JStr (ascii ''hello''))]"
                "ascii ''hello''"]
    by (simp add: message_key_def ascii_def strip_def py_isspace_def utf8_stdout_def
        is_surrogate_def question_log_def streaming_error_log_def)
  have d: "http_status (post_chat utf8_stdout (Some ?f)
                  (Some (JObj [(ascii ''message'', JStr [0xD83D, 97, 98])]))) = 500"
    using c4 [of "Some (JObj [(ascii ''message'', JStr [0xD83D, 97, 98])])"]
    by (simp add: message_key_def ascii_def strip_def py_isspace_def utf8_stdout_def
        is_surrogate_def question_log_def)
  have e: "http_status (post_chat utf8_stdout (Some ?f) None) = 500"
    using c4 [of None] by simp
  from a b d e show ?thesis by simp
qed

section \<open>Properties of the health check\<close>

text \<open>
  C7. \<open>GET /\<close> answers with status 200 and the same JSON object in every state of the
  system, leaves the state as it is, and its answer does not depend on the state (so not
  on whether a query engine exists).
\<close>

theorem C7_health_check:
  "get_root s =
     (\<lparr>json_status = 200,
       json_content = JObj [(ascii ''message'', JStr (ascii ''Backend is running. Auth: Zenoharsh''))]\<rparr>, s)
   \<and> fst (get_root s) = fst (get_root s')"
  by (simp add: get_root_def root_def message_key_def)

section \<open>Properties of the admission gate\<close>

lemma gated_section_hi:
  "gated_section utf8_stdout (Some (JObj [(message_key, JStr (ascii ''hi''))])) =
     ([RequestJson, Print (question_log (ascii ''hi''))],
      Inr (StreamingResponse (EventStream (ascii ''hi'')) ''text/event-stream''))"
  by (rule gated_section_valid)
    (simp_all add: ascii_def strip_def py_isspace_def utf8_stdout_def is_surrogate_def
      question_log_def)

lemma encodable_a: "encodable (ascii ''a'')"
  by (simp add: encodable_def is_surrogate_def ascii_def)

text \<open>
  C1 does not hold of the code. \<open>return StreamingResponse(event_stream(), ...)\<close> stands
  inside \<open>async with semaphore\<close>, and \<open>event_stream()\<close> only creates the generator: the
  handler returns, which releases the slot, before the framework starts to iterate the
  generator, and the query engine is called from inside the generator. Three requests
  with the message \<open>"hi"\<close>, against an engine that answers with two tokens, each resumed
  three times in turn (acquire, validate and return, first token): all three are then in
  their generation phase at once, each having sent its first token, none holds a slot,
  and the semaphore is back at 2. In each request's events the release precedes the query.
  The standard output is a UTF-8 stream.
\<close>

theorem C1_three_requests_generate_at_once:
  "(let s = run (init utf8_stdout (Some (\<lambda>q. Inr (Token (ascii ''a'') (Token (ascii ''b'') Exhausted))))
                  (replicate 3 (Some (JObj [(message_key, JStr (ascii ''hi''))]))))
              [0, 0, 0, 1, 1, 1, 2, 2, 2]
    in length (filter generating (requests s)) = 3 \<and>
       length (filter holds_slot (requests s)) = 0 \<and>
       semaphore s = 2 \<and>
       map req_events (requests s) =
         replicate 3 [SemAcquire, RequestJson, Print (question_log (ascii ''hi'')), SemRelease,
                      EngineQuery (ascii ''hi'')] \<and>
       map sent (requests s) = replicate 3 [ascii ''a''])"
  by (simp add: run_def init_def new_request_def step_def handler_step_def acquire_def
      gated_section_hi encodable_a StreamingResponse_def engine_query_def numeral_3_eq_3)

text \<open>
  What the semaphore does bound: on every schedule the counter and the number of
  requests inside \<open>async with\<close> add up to 2, so at most 2 requests are between acquire
  and release at a time. A step changes no other request.
\<close>

lemma holders_update:
  assumes "i < length rs"
  shows "holders (rs[i := r]) + (if holds_slot (rs ! i) then 1 else 0) =
         holders rs + (if holds_slot r then 1 else 0)"
proof -
  have a: "rs[i := r] = take i rs @ r # drop (Suc i) rs"
    using assms by (rule upd_conv_take_nth_drop)
  have b: "rs = take i rs @ (rs ! i) # drop (Suc i) rs"
    using assms by (rule id_take_nth_drop)
  have "holders (take i rs @ r # drop (Suc i) rs) + (if holds_slot (rs ! i) then 1 else 0) =
        holders (take i rs @ (rs ! i) # drop (Suc i) rs) + (if holds_slot r then 1 else 0)"
    by (simp add: holders_def)
  with a b show ?thesis by simp
qed

lemma handler_step_gate:
  assumes "handler_step out qe sem r = (sem', r')"
  shows "sem' + (if holds_slot r' then 1 else 0) = sem + (if holds_slot r then 1 else 0)"
proof (cases "pc r")
  case Received
  with assms show ?thesis
    by (cases qe) (auto simp add: handler_step_def acquire_def split: if_splits)
next
  case WaitingGate
  with assms show ?thesis
    by (auto simp add: handler_step_def acquire_def split: if_splits)
next
  case InGate
  with assms show ?thesis
    by (auto simp add: handler_step_def split: prod.splits sum.splits)
next
  case (Returned resp sp)
  with assms show ?thesis
    by (auto simp add: handler_step_def split: prod.splits)
next
  case (Raised e)
  with assms show ?thesis
    by (auto simp add: handler_step_def)
qed

lemma step_gate:
  "semaphore (step s i) + holders (requests (step s i)) = semaphore s + holders (requests s)"
proof (cases "i < length (requests s)")
  case False
  then show ?thesis by (simp add: step_def)
next
  case True
  obtain sem' r' where h:
    "handler_step (sys_stdout s) (query_engine s) (semaphore s) (requests s ! i) = (sem', r')"
    by (cases "handler_step (sys_stdout s) (query_engine s) (semaphore s) (requests s ! i)") auto
  from handler_step_gate [OF h] holders_update [OF True, of r'] True h
  show ?thesis by (simp add: step_def split: if_splits)
qed

lemma run_gate:
  "semaphore (run s sched) + holders (requests (run s sched)) =
   semaphore s + holders (requests s)"
proof (induction sched arbitrary: s)
  case Nil
  show ?case by (simp add: run_def)
next
  case (Cons i sched)
  from Cons.IH [of "step s i"] step_gate [of s i] show ?case by (simp add: run_def)
qed

lemma holders_init: "holders (requests (init out qe bodies)) = 0"
  by (induction bodies) (simp_all add: holders_def init_def new_request_def)

theorem gate_bounds_gated_section:
  "semaphore (run (init out qe bodies) sched) +
     length (filter holds_slot (requests (run (init out qe bodies) sched))) = 2"
  using run_gate [of "init out qe bodies" sched] holders_init [of out qe bodies]
  by (simp add: holders_def init_def)

lemma step_other_request:
  "j \<noteq> i \<Longrightarrow> requests (step s i) ! j = requests s ! j"
  by (simp add: step_def split: prod.splits)

lemma step_query_engine: "query_engine (step s i) = query_engine s"
  by (simp add: step_def split: prod.splits)

text \<open>
  The step-wise generator agrees with the iterated one: resumed often enough from its
  start, a response's generator has sent the chunks and caused the events of \<open>iterate\<close>.
\<close>

lemma on_exception_closes:
  assumes "resume out qe sp = (case on_exception out e of (c, evs, p) \<Rightarrow> (c, pre @ evs, p))"
  shows "\<exists>n. resume_all n out qe sp = closing (except_clause out [] pre e)"
proof (cases "derives_Exception e")
  case True
  show ?thesis
  proof (cases "out (streaming_error_log e)")
    case None
    with True assms have "resume_all 2 out qe sp = closing (except_clause out [] pre e)"
      by (simp add: numeral_2_eq_2 on_exception_def except_clause_def closing_def)
    then show ?thesis ..
  next
    case (Some e')
    with True assms have "resume_all 1 out qe sp = closing (except_clause out [] pre e)"
      by (simp add: on_exception_def except_clause_def closing_def)
    then show ?thesis ..
  qed
next
  case False
  with assms have "resume_all 1 out qe sp = closing (except_clause out [] pre e)"
    by (simp add: on_exception_def except_clause_def closing_def)
  then show ?thesis ..
qed

lemma in_loop_closes:
  "\<exists>n. resume_all n out qe (InLoop g) = closing (after_loop out [] (for_tokens g))"
proof (induction g)
  case Exhausted
  have "resume_all 1 out qe (InLoop Exhausted) =
          closing (after_loop out [] (for_tokens Exhausted))"
    by (simp add: closing_def)
  then show ?case ..
next
  case (Token t g)
  show ?case
  proof (cases "encodable t")
    case False
    then have "resume_all 1 out qe (InLoop (Token t g)) =
          closing (after_loop out [] (for_tokens (Token t g)))"
      by (simp add: closing_def)
    then show ?thesis ..
  next
    case True
    from Token obtain n where n:
      "resume_all n out qe (InLoop g) = closing (after_loop out [] (for_tokens g))" by blast
    obtain ts r where f: "for_tokens g = (ts, r)" by (cases "for_tokens g") auto
    have "resume_all (Suc n) out qe (InLoop (Token t g)) =
          closing (after_loop out [] (for_tokens (Token t g)))"
      using n True f
      by (cases r) (auto simp add: closing_def except_clause_def split: option.splits)
    then show ?thesis ..
  qed
next
  case (GenRaise e)
  have "resume out qe (InLoop (GenRaise e)) =
          (case on_exception out e of (c, evs, p) \<Rightarrow> (c, [] @ evs, p))"
    by (simp split: prod.splits)
  from on_exception_closes [OF this] show ?case by simp
qed

lemma after_loop_Cons:
  "closing (after_loop out (ev # evs) (t # ts, r)) =
     (case closing (after_loop out evs (ts, r)) of
        (cs, es, p) \<Rightarrow> (t # cs, ev # es, p))"
  by (cases r) (auto simp add: closing_def except_clause_def split: option.splits)

theorem resume_agrees_with_iterate:
  "\<exists>n. resume_all n out qe (Unstarted b) = closing (iterate out qe b)"
proof (cases b)
  case IndexErrorStream
  have "resume_all 2 out qe (Unstarted IndexErrorStream) =
          closing (iterate out qe IndexErrorStream)"
    by (simp add: numeral_2_eq_2 closing_def index_error_stream_def)
  with IndexErrorStream show ?thesis by blast
next
  case ValidationErrorStream
  have "resume_all 2 out qe (Unstarted ValidationErrorStream) =
          closing (iterate out qe ValidationErrorStream)"
    by (simp add: numeral_2_eq_2 closing_def validation_error_stream_def)
  with ValidationErrorStream show ?thesis by blast
next
  case (EventStream q)
  show ?thesis
  proof (cases "engine_query qe q")
    case (Inl e)
    then have "resume out qe (Unstarted (EventStream q)) =
          (case on_exception out e of (c, evs, p) \<Rightarrow> (c, [EngineQuery q] @ evs, p))"
      by simp
    from on_exception_closes [OF this] Inl EventStream show ?thesis
      by (simp add: event_stream_def)
  next
    case (Inr g)
    show ?thesis
    proof (cases g)
      case Exhausted
      with Inr have "resume_all 1 out qe (Unstarted (EventStream q)) =
          closing (event_stream out qe q)"
        by (simp add: event_stream_def closing_def)
      then show ?thesis unfolding EventStream iterate.simps by (rule exI)
    next
      case (GenRaise e)
      with Inr have "resume out qe (Unstarted (EventStream q)) =
          (case on_exception out e of (c, evs, p) \<Rightarrow> (c, [EngineQuery q] @ evs, p))"
        by simp
      from on_exception_closes [OF this] Inr GenRaise EventStream show ?thesis
        by (simp add: event_stream_def)
    next
      case (Token t g')
      show ?thesis
      proof (cases "encodable t")
        case False
        with Inr Token have "resume_all 1 out qe (Unstarted (EventStream q)) =
            closing (event_stream out qe q)"
          by (simp add: event_stream_def closing_def)
        then show ?thesis unfolding EventStream iterate.simps by (rule exI)
      next
        case True
        obtain n where n:
          "resume_all n out qe (InLoop g') = closing (after_loop out [] (for_tokens g'))"
          using in_loop_closes by blast
        obtain ts r where f: "for_tokens g' = (ts, r)" by (cases "for_tokens g'") auto
        have "resume_all (Suc n) out qe (Unstarted (EventStream q)) =
            closing (event_stream out qe q)"
          using Inr Token True n f
          by (simp add: event_stream_def after_loop_Cons split: prod.splits)
        then show ?thesis unfolding EventStream iterate.simps by (rule exI)
      qed
    qed
  qed
qed

lemma on_exception_no_acquire: "SemAcquire \<notin> set (fst (snd (on_exception out e)))"
  by (simp add: on_exception_def split: option.splits)

lemma next_token_no_acquire: "SemAcquire \<notin> set (fst (snd (next_token out g)))"
proof (cases g)
  case Exhausted
  then show ?thesis by simp
next
  case (Token t g')
  then show ?thesis by (cases "encodable t") simp_all
next
  case (GenRaise e)
  then show ?thesis using on_exception_no_acquire [of out e] by simp
qed

lemma resume_no_acquire: "SemAcquire \<notin> set (fst (snd (resume out qe sp)))"
proof (cases sp)
  case (Unstarted b)
  show ?thesis
  proof (cases b)
    case (EventStream q)
    show ?thesis
    proof (cases "engine_query qe q")
      case (Inl e)
      obtain c evs p where h: "on_exception out e = (c, evs, p)"
        by (cases "on_exception out e") auto
      with on_exception_no_acquire [of out e] have "SemAcquire \<notin> set evs" by simp
      with Unstarted EventStream Inl h show ?thesis by simp
    next
      case (Inr g)
      obtain c evs p where h: "next_token out g = (c, evs, p)"
        by (cases "next_token out g") auto
      with next_token_no_acquire [of out g] have "SemAcquire \<notin> set evs" by simp
      with Unstarted EventStream Inr h show ?thesis by simp
    qed
  qed (simp_all add: Unstarted)
next
  case (InLoop g)
  then show ?thesis using next_token_no_acquire [of out g] by simp
qed simp_all

lemma handler_step_degraded:
  assumes "pc r = Received \<or> (\<exists>resp sp. pc r = Returned resp sp)"
    and "SemAcquire \<notin> set (req_events r)"
    and "handler_step out None sem r = (sem', r')"
  shows "sem' = sem \<and> (pc r' = Received \<or> (\<exists>resp sp. pc r' = Returned resp sp)) \<and>
         SemAcquire \<notin> set (req_events r')"
  using assms(1)
proof (elim disjE exE)
  assume "pc r = Received"
  with assms(2,3) show ?thesis by (auto simp add: handler_step_def)
next
  fix resp sp
  assume p: "pc r = Returned resp sp"
  obtain c evs sp' where h: "resume out None sp = (c, evs, sp')"
    by (cases "resume out None sp") auto
  with resume_no_acquire [of out None sp] have "SemAcquire \<notin> set evs" by simp
  with assms(2,3) p h show ?thesis by (auto simp add: handler_step_def)
qed

lemma step_degraded:
  assumes "degraded_inv s"
  shows "degraded_inv (step s i) \<and> semaphore (step s i) = semaphore s"
proof (cases "i < length (requests s)")
  case False
  with assms show ?thesis by (simp add: step_def)
next
  case True
  obtain sem' r' where h: "handler_step (sys_stdout s) None (semaphore s) (requests s ! i) = (sem', r')"
    by (cases "handler_step (sys_stdout s) None (semaphore s) (requests s ! i)") auto
  from assms True have ri: "(pc (requests s ! i) = Received \<or>
      (\<exists>resp sp. pc (requests s ! i) = Returned resp sp)) \<and>
      SemAcquire \<notin> set (req_events (requests s ! i))"
    by (simp add: degraded_inv_def)
  from handler_step_degraded [OF _ _ h] ri
  have r': "sem' = semaphore s \<and> (pc r' = Received \<or> (\<exists>resp sp. pc r' = Returned resp sp)) \<and>
         SemAcquire \<notin> set (req_events r')" by blast
  have "\<And>r. r \<in> set ((requests s)[i := r']) \<Longrightarrow> r = r' \<or> r \<in> set (requests s)"
    by (meson insertE set_update_subset_insert subsetD)
  with assms r' True h show ?thesis
    by (auto simp add: step_def degraded_inv_def)
qed

lemma run_degraded:
  "degraded_inv s \<Longrightarrow> degraded_inv (run s sched) \<and> semaphore (run s sched) = semaphore s"
proof (induction sched arbitrary: s)
  case Nil
  then show ?case by (simp add: run_def)
next
  case (Cons i sched)
  from step_degraded [OF Cons.prems]
  have "degraded_inv (step s i)" and "semaphore (step s i) = semaphore s" by simp_all
  with Cons.IH [of "step s i"] show ?case by (simp add: run_def)
qed

lemma init_degraded: "degraded_inv (init out None bodies)"
  by (auto simp add: degraded_inv_def init_def new_request_def)

text \<open>
  C10. Without a query engine the handler has no effect, so it never acquires the
  semaphore. A request that is started returns its degraded-mode response in that one
  step whatever the semaphore's counter and the other requests are (so also with the
  counter at 0), leaving the counter and its own events unchanged. And on every schedule
  of any requests the counter stays 2 and no request ever holds a slot, waits at the
  gate, or has an acquire among its events.
\<close>

theorem C10_degraded_never_at_gate:
  "fst (chat out None request) = []
   \<and> (\<forall>s i. query_engine s = None \<and> i < length (requests s) \<and>
             pc (requests s ! i) = Received \<longrightarrow>
          semaphore (step s i) = semaphore s \<and>
          pc (requests (step s i) ! i) =
            Returned (StreamingResponse IndexErrorStream ''text/event-stream'')
                     (Unstarted IndexErrorStream) \<and>
          req_events (requests (step s i) ! i) = req_events (requests s ! i))
   \<and> (\<forall>bodies sched. semaphore (run (init out None bodies) sched) = 2 \<and>
          (\<forall>r \<in> set (requests (run (init out None bodies) sched)).
             \<not> holds_slot r \<and> \<not> waits_at_gate r \<and> SemAcquire \<notin> set (req_events r)))"
proof (intro conjI allI impI ballI)
  show "fst (chat out None request) = []" by (simp add: chat_def)
next
  fix s :: system and i
  assume a: "query_engine s = None \<and> i < length (requests s) \<and> pc (requests s ! i) = Received"
  then show "semaphore (step s i) = semaphore s"
    by (simp add: step_def handler_step_def)
  from a show "pc (requests (step s i) ! i) =
            Returned (StreamingResponse IndexErrorStream ''text/event-stream'')
                     (Unstarted IndexErrorStream)"
    by (simp add: step_def handler_step_def)
  from a show "req_events (requests (step s i) ! i) = req_events (requests s ! i)"
    by (simp add: step_def handler_step_def)
next
  fix bodies sched
  show "semaphore (run (init out None bodies) sched) = 2"
    using run_degraded [OF init_degraded, of out bodies sched] by (simp add: init_def)
  fix r assume r: "r \<in> set (requests (run (init out None bodies) sched))"
  from run_degraded [OF init_degraded, of out bodies sched] r
  have h: "(pc r = Received \<or> (\<exists>resp sp. pc r = Returned resp sp)) \<and>
        SemAcquire \<notin> set (req_events r)"
    by (simp add: degraded_inv_def)
  then show "\<not> holds_slot r" by auto
  from h show "\<not> waits_at_gate r" by auto
  from h show "SemAcquire \<notin> set (req_events r)" by simp
qed

theorem C10_degraded_witness:
  "semaphore (step \<lparr>sys_stdout = utf8_stdout, query_engine = None, semaphore = 0,
             requests = [\<lparr>req_body = None, pc = InGate, sent = [],
                          req_events = [SemAcquire]\<rparr>,
                         new_request (Some (JObj []))]\<rparr> 1) = 0
   \<and> pc (requests (step \<lparr>sys_stdout = utf8_stdout, query_engine = None, semaphore = 0,
             requests = [\<lparr>req_body = None, pc = InGate, sent = [],
                          req_events = [SemAcquire]\<rparr>,
                         new_request (Some (JObj []))]\<rparr> 1) ! 1) =
        Returned (StreamingResponse IndexErrorStream ''text/event-stream'')
                 (Unstarted IndexErrorStream)
   \<and> semaphore (run (init utf8_stdout None [None, Some (JObj []), Some JNull])
                  [0, 1, 2, 0, 1, 2]) = 2"
  using C10_degraded_never_at_gate [where out = utf8_stdout and request = None,
      THEN conjunct2, THEN conjunct1, THEN spec, THEN spec,
      of "\<lparr>sys_stdout = utf8_stdout, query_engine = None, semaphore = 0,
             requests = [\<lparr>req_body = None, pc = InGate, sent = [],
                          req_events = [SemAcquire]\<rparr>,
                         new_request (Some (JObj []))]\<rparr>" 1]
    C10_degraded_never_at_gate [where out = utf8_stdout and request = None,
      THEN conjunct2, THEN conjunct2, THEN spec, THEN spec,
      of "[None, Some (JObj []), Some JNull]" "[0, 1, 2, 0, 1, 2]"]
  by (simp add: new_request_def)

section \<open>Properties of the startup\<close>

lemma and_then_Inr: "and_then (t, Inr x) f = (t @ fst (f x), snd (f x))"
  by (simp add: and_then_def split: prod.splits)

lemma and_then_Inl: "and_then (t, Inl e) f = (t, Inl e)"
  by (simp add: and_then_def)

lemma and_then_call_Inr: "and_then (call c (Inr x)) f = (c # fst (f x), snd (f x))"
  by (simp add: call_def and_then_Inr)

lemma and_then_call_Inl: "and_then (call c (Inl e)) f = ([c], Inl e)"
  by (simp add: call_def and_then_Inl)

lemma and_then_print:
  "and_then (print out s) f =
     (case out s of
        None \<Rightarrow> (Printed s # fst (f ()), snd (f ()))
      | Some e \<Rightarrow> ([], Inl e))"
  by (simp add: print_def and_then_Inr and_then_Inl split: option.splits)

lemma index_setup_builds:
  "path_exists L STORAGE_DIR = Inr False \<and>
    out no_storage_line = None \<and>
    sentence_splitter L 350 35 = Inr p \<and>
    load_data L PDF_DIR = Inr d \<and>
    get_nodes_from_documents L p d = Inr n \<and>
    vector_store_index L n = Inr i \<and>
    persist L i STORAGE_DIR = Inr () \<and>
    out index_built_line = None \<Longrightarrow>
      index_setup out L =
        ([PathExists ''./storage'', Printed no_storage_line,
          SentenceSplitter 350 35, LoadData ''./data'',
          GetNodesFromDocuments, VectorStoreIndex, Persist ''./storage'',
          Printed index_built_line],
         Inr (Some i))"
  by (simp add: index_setup_def try_body_def build_new_index_def load_saved_index_def
      and_then_call_Inr and_then_call_Inl and_then_print finish_def STORAGE_DIR_def PDF_DIR_def)

lemma index_setup_loads:
  "path_exists L STORAGE_DIR = Inr True \<and>
    out loading_line = None \<and>
    from_defaults L STORAGE_DIR = Inr c \<and>
    load_index_from_storage L c = Inr i' \<and>
    out index_loaded_line = None \<Longrightarrow>
      index_setup out L =
        ([PathExists ''./storage'', Printed loading_line,
          FromDefaults ''./storage'', LoadIndexFromStorage,
          Printed index_loaded_line],
         Inr (Some i'))"
  by (simp add: index_setup_def try_body_def build_new_index_def load_saved_index_def
      and_then_call_Inr and_then_call_Inl and_then_print finish_def STORAGE_DIR_def PDF_DIR_def)

lemma index_setup_fails:
  assumes "derives_Exception e" and "out (index_setup_error_log e) = None"
  shows "(path_exists L STORAGE_DIR = Inl e \<longrightarrow>
           index_setup out L =
             ([PathExists ''./storage'', Printed (index_setup_error_log e)],
              Inr None))
      \<and> (path_exists L STORAGE_DIR = Inr False \<and>
         out no_storage_line = Some e \<longrightarrow>
           index_setup out L =
             ([PathExists ''./storage'', Printed (index_setup_error_log e)],
              Inr None))
      \<and> (path_exists L STORAGE_DIR = Inr False \<and>
         out no_storage_line = None \<and>
         sentence_splitter L 350 35 = Inl e \<longrightarrow>
           index_setup out L =
             ([PathExists ''./storage'', Printed no_storage_line,
               SentenceSplitter 350 35, Printed (index_setup_error_log e)],
              Inr None))
      \<and> (path_exists L STORAGE_DIR = Inr False \<and>
         out no_storage_line = None \<and>
         sentence_splitter L 350 35 = Inr p \<and>
         load_data L PDF_DIR = Inl e \<longrightarrow>
           index_setup out L =
             ([PathExists ''./storage'', Printed no_storage_line,
               SentenceSplitter 350 35, LoadData ''./data'',
               Printed (index_setup_error_log e)],
              Inr None))
      \<and> (path_exists L STORAGE_DIR = Inr False \<and>
         out no_storage_line = None \<and>
         sentence_splitter L 350 35 = Inr p \<and>
         load_data L PDF_DIR = Inr d \<and>
         get_nodes_from_documents L p d = Inl e \<longrightarrow>
           index_setup out L =
             ([PathExists ''./storage'', Printed no_storage_line,
               SentenceSplitter 350 35, LoadData ''./data'',
               GetNodesFromDocuments, Printed (index_setup_error_log e)],
              Inr None))
      \<and> (path_exists L STORAGE_DIR = Inr False \<and>
         out no_storage_line = None \<and>
         sentence_splitter L 350 35 = Inr p \<and>
         load_data L PDF_DIR = Inr d \<and>
         get_nodes_from_documents L p d = Inr n \<and>
         vector_store_index L n = Inl e \<longrightarrow>
           index_setup out L =
             ([PathExists ''./storage'', Printed no_storage_line,
               SentenceSplitter 350 35, LoadData ''./data'',
               GetNodesFromDocuments, VectorStoreIndex,
               Printed (index_setup_error_log e)],
              Inr None))
      \<and> (path_exists L STORAGE_DIR = Inr False \<and>
         out no_storage_line = None \<and>
         sentence_splitter L 350 35 = Inr p \<and>
         load_data L PDF_DIR = Inr d \<and>
         get_nodes_from_documents L p d = Inr n \<and>
         vector_store_index L n = Inr i \<and>
         persist L i STORAGE_DIR = Inl e \<longrightarrow>
           index_setup out L =
             ([PathExists ''./storage'', Printed no_storage_line,
               SentenceSplitter 350 35, LoadData ''./data'',
               GetNodesFromDocuments, VectorStoreIndex,
               Persist ''./storage'', Printed (index_setup_error_log e)],
              Inr None))
      \<and> (path_exists L STORAGE_DIR = Inr False \<and>
         out no_storage_line = None \<and>
         sentence_splitter L 350 35 = Inr p \<and>
         load_data L PDF_DIR = Inr d \<and>
         get_nodes_from_documents L p d = Inr n \<and>
         vector_store_index L n = Inr i \<and>
         persist L i STORAGE_DIR = Inr () \<and>
         out index_built_line = Some e \<longrightarrow>
           index_setup out L =
             ([PathExists ''./storage'', Printed no_storage_line,
               SentenceSplitter 350 35, LoadData ''./data'',
               GetNodesFromDocuments, VectorStoreIndex,
               Persist ''./storage'', Printed (index_setup_error_log e)],
              Inr None))
      \<and> (path_exists L STORAGE_DIR = Inr True \<and>
         out loading_line = Some e \<longrightarrow>
           index_setup out L =
             ([PathExists ''./storage'', Printed (index_setup_error_log e)],
              Inr None))
      \<and> (path_exists L STORAGE_DIR = Inr True \<and>
         out loading_line = None \<and>
         from_defaults L STORAGE_DIR = Inl e \<longrightarrow>
           index_setup out L =
             ([PathExists ''./storage'', Printed loading_line,
               FromDefaults ''./storage'', Printed (index_setup_error_log e)],
              Inr None))
      \<and> (path_exists L STORAGE_DIR = Inr True \<and>
         out loading_line = None \<and>
         from_defaults L STORAGE_DIR = Inr c \<and>
         load_index_from_storage L c = Inl e \<longrightarrow>
           index_setup out L =
             ([PathExists ''./storage'', Printed loading_line,
               FromDefaults ''./storage'', LoadIndexFromStorage,
               Printed (index_setup_error_log e)],
              Inr None))
      \<and> (path_exists L STORAGE_DIR = Inr True \<and>
         out loading_line = None \<and>
         from_defaults L STORAGE_DIR = Inr c \<and>
         load_index_from_storage L c = Inr i' \<and>
         out index_loaded_line = Some e \<longrightarrow>
           index_setup out L =
             ([PathExists ''./storage'', Printed loading_line,
               FromDefaults ''./storage'', LoadIndexFromStorage,
               Printed (index_setup_error_log e)],
              Inr None))"
  using assms
  by (intro conjI impI)
    (simp_all add: index_setup_def try_body_def build_new_index_def load_saved_index_def
      and_then_call_Inr and_then_call_Inl and_then_print finish_def STORAGE_DIR_def PDF_DIR_def)

lemma startup_degraded:
  "index_setup out L = (t, Inr None) \<Longrightarrow>
   startup out L = (t, Inr \<lparr>g_index = None, g_query_engine = None\<rparr>)"
  by (simp add: startup_def query_engine_setup_def and_then_Inr finish_def)

lemma index_setup_leaves:
  assumes "snd (index_setup out L) = Inl e'"
  shows "\<not> derives_Exception e' \<or>
         (\<exists>e0. derives_Exception e0 \<and> out (index_setup_error_log e0) = Some e')"
  using assms
  by (auto simp add: index_setup_def split: prod.splits sum.splits if_splits option.splits)

text \<open>
  C6, amended: an exception is caught and logged when its error line can be printed.
  (1) If the storage path does not exist and every statement of the \<open>try\<close> body
  succeeds (the library calls and the two \<open>print\<close>s of the build path),
  the calls are, in order: the splitter with chunk size 350 and overlap 35, the reader on
  \<open>./data\<close>, the split into nodes, the index over the nodes and its persisting to
  \<open>./storage\<close>; the global \<open>index\<close> is the index built. (2) If the storage path exists
  and every statement succeeds, the calls are the storage context on \<open>./storage\<close> and
  the loading of the index: no splitter, no reader, no split. (3) For
  an \<open>Exception\<close> \<open>e\<close> whose error line is printed: whichever statement of the \<open>try\<close> body
  raises \<open>e\<close> (the test of the path, the splitter, the reader, the split, the index, the
  persisting, the storage context, the loading, or one of the four \<open>print\<close>s), no later
  statement of the body runs, the error is printed and \<open>index\<close> is \<open>None\<close>. (4) With
  \<open>index = None\<close> the startup completes with neither index nor query engine. (5) An
  \<open>Exception\<close> leaves the index setup only from the \<open>print\<close> of the \<open>except\<close> clause.
\<close>

theorem C6_index_setup:
  "(path_exists L STORAGE_DIR = Inr False \<and>
    out no_storage_line = None \<and>
    sentence_splitter L 350 35 = Inr p \<and>
    load_data L PDF_DIR = Inr d \<and>
    get_nodes_from_documents L p d = Inr n \<and>
    vector_store_index L n = Inr i \<and>
    persist L i STORAGE_DIR = Inr () \<and>
    out index_built_line = None \<longrightarrow>
      index_setup out L =
        ([PathExists ''./storage'', Printed no_storage_line,
          SentenceSplitter 350 35, LoadData ''./data'',
          GetNodesFromDocuments, VectorStoreIndex, Persist ''./storage'',
          Printed index_built_line],
         Inr (Some i)))
   \<and> (path_exists L STORAGE_DIR = Inr True \<and>
    out loading_line = None \<and>
    from_defaults L STORAGE_DIR = Inr c \<and>
    load_index_from_storage L c = Inr i' \<and>
    out index_loaded_line = None \<longrightarrow>
      index_setup out L =
        ([PathExists ''./storage'', Printed loading_line,
          FromDefaults ''./storage'', LoadIndexFromStorage,
          Printed index_loaded_line],
         Inr (Some i')))
   \<and> (derives_Exception e \<and> out (index_setup_error_log e) = None \<longrightarrow>
        (path_exists L STORAGE_DIR = Inl e \<longrightarrow>
           index_setup out L =
             ([PathExists ''./storage'', Printed (index_setup_error_log e)],
              Inr None))
      \<and> (path_exists L STORAGE_DIR = Inr False \<and>
         out no_storage_line = Some e \<longrightarrow>
           index_setup out L =
             ([PathExists ''./storage'', Printed (index_setup_error_log e)],
              Inr None))
      \<and> (path_exists L STORAGE_DIR = Inr False \<and>
         out no_storage_line = None \<and>
         sentence_splitter L 350 35 = Inl e \<longrightarrow>
           index_setup out L =
             ([PathExists ''./storage'', Printed no_storage_line,
               SentenceSplitter 350 35, Printed (index_setup_error_log e)],
              Inr None))
      \<and> (path_exists L STORAGE_DIR = Inr False \<and>
         out no_storage_line = None \<and>
         sentence_splitter L 350 35 = Inr p \<and>
         load_data L PDF_DIR = Inl e \<longrightarrow>
           index_setup out L =
             ([PathExists ''./storage'', Printed no_storage_line,
               SentenceSplitter 350 35, LoadData ''./data'',
               Printed (index_setup_error_log e)],
              Inr None))
      \<and> (path_exists L STORAGE_DIR = Inr False \<and>
         out no_storage_line = None \<and>
         sentence_splitter L 350 35 = Inr p \<and>
         load_data L PDF_DIR = Inr d \<and>
         get_nodes_from_documents L p d = Inl e \<longrightarrow>
           index_setup out L =
             ([PathExists ''./storage'', Printed no_storage_line,
               SentenceSplitter 350 35, LoadData ''./data'',
               GetNodesFromDocuments, Printed (index_setup_error_log e)],
              Inr None))
      \<and> (path_exists L STORAGE_DIR = Inr False \<and>
         out no_storage_line = None \<and>
         sentence_splitter L 350 35 = Inr p \<and>
         load_data L PDF_DIR = Inr d \<and>
         get_nodes_from_documents L p d = Inr n \<and>
         vector_store_index L n = Inl e \<longrightarrow>
           index_setup out L =
             ([PathExists ''./storage'', Printed no_storage_line,
               SentenceSplitter 350 35, LoadData ''./data'',
               GetNodesFromDocuments, VectorStoreIndex,
               Printed (index_setup_error_log e)],
              Inr None))
      \<and> (path_exists L STORAGE_DIR = Inr False \<and>
         out no_storage_line = None \<and>
         sentence_splitter L 350 35 = Inr p \<and>
         load_data L PDF_DIR = Inr d \<and>
         get_nodes_from_documents L p d = Inr n \<and>
         vector_store_index L n = Inr i \<and>
         persist L i STORAGE_DIR = Inl e \<longrightarrow>
           index_setup out L =
             ([PathExists ''./storage'', Printed no_storage_line,
               SentenceSplitter 350 35, LoadData ''./data'',
               GetNodesFromDocuments, VectorStoreIndex,
               Persist ''./storage'', Printed (index_setup_error_log e)],
              Inr None))
      \<and> (path_exists L STORAGE_DIR = Inr False \<and>
         out no_storage_line = None \<and>
         sentence_splitter L 350 35 = Inr p \<and>
         load_data L PDF_DIR = Inr d \<and>
         get_nodes_from_documents L p d = Inr n \<and>
         vector_store_index L n = Inr i \<and>
         persist L i STORAGE_DIR = Inr () \<and>
         out index_built_line = Some e \<longrightarrow>
           index_setup out L =
             ([PathExists ''./storage'', Printed no_storage_line,
               SentenceSplitter 350 35, LoadData ''./data'',
               GetNodesFromDocuments, VectorStoreIndex,
               Persist ''./storage'', Printed (index_setup_error_log e)],
              Inr None))
      \<and> (path_exists L STORAGE_DIR = Inr True \<and>
         out loading_line = Some e \<longrightarrow>
           index_setup out L =
             ([PathExists ''./storage'', Printed (index_setup_error_log e)],
              Inr None))
      \<and> (path_exists L STORAGE_DIR = Inr True \<and>
         out loading_line = None \<and>
         from_defaults L STORAGE_DIR = Inl e \<longrightarrow>
           index_setup out L =
             ([PathExists ''./storage'', Printed loading_line,
               FromDefaults ''./storage'', Printed (index_setup_error_log e)],
              Inr None))
      \<and> (path_exists L STORAGE_DIR = Inr True \<and>
         out loading_line = None \<and>
         from_defaults L STORAGE_DIR = Inr c \<and>
         load_index_from_storage L c = Inl e \<longrightarrow>
           index_setup out L =
             ([PathExists ''./storage'', Printed loading_line,
               FromDefaults ''./storage'', LoadIndexFromStorage,
               Printed (index_setup_error_log e)],
              Inr None))
      \<and> (path_exists L STORAGE_DIR = Inr True \<and>
         out loading_line = None \<and>
         from_defaults L STORAGE_DIR = Inr c \<and>
         load_index_from_storage L c = Inr i' \<and>
         out index_loaded_line = Some e \<longrightarrow>
           index_setup out L =
             ([PathExists ''./storage'', Printed loading_line,
               FromDefaults ''./storage'', LoadIndexFromStorage,
               Printed (index_setup_error_log e)],
              Inr None)))
   \<and> (index_setup out L = (t, Inr None) \<longrightarrow>
        startup out L = (t, Inr \<lparr>g_index = None, g_query_engine = None\<rparr>))
   \<and> (\<forall>e'. snd (index_setup out L) = Inl e' \<longrightarrow>
        \<not> derives_Exception e' \<or>
        (\<exists>e0. derives_Exception e0 \<and> out (index_setup_error_log e0) = Some e'))"
  (is "(?P1 \<longrightarrow> ?C1) \<and> (?P2 \<longrightarrow> ?C2) \<and> (?P3 \<longrightarrow> ?C3) \<and> (?P4 \<longrightarrow> ?C4) \<and> ?C5")
proof -
  have 1: "?P1 \<longrightarrow> ?C1"
    by (rule impI, rule index_setup_builds)
  have 2: "?P2 \<longrightarrow> ?C2"
    by (rule impI, rule index_setup_loads)
  have 3: "?P3 \<longrightarrow> ?C3"
  proof (rule impI)
    assume ?P3
    then have a: "derives_Exception e" and b: "out (index_setup_error_log e) = None"
      by simp_all
    show ?C3 by (rule index_setup_fails [of e out, OF a b])
  qed
  have 4: "?P4 \<longrightarrow> ?C4"
    by (rule impI, rule startup_degraded)
  have 5: ?C5
    by (intro allI impI, rule index_setup_leaves)
  show ?thesis
    by (rule conjI [OF 1 conjI [OF 2 conjI [OF 3 conjI [OF 4 5]]]])
qed

text \<open>
  C6, as stated, fails when a line of the startup cannot be printed. On a standard
  output of an ASCII encoding, with the storage path present and the index loading
  without error, \<open>print\<close> of the success line raises \<open>UnicodeEncodeError\<close> inside the
  \<open>try\<close>; the \<open>except\<close> clause catches it and its own \<open>print\<close> raises again, which
  leaves the module: the process does not start. On a UTF-8 standard output the same
  happens for a failing reader whose exception text holds a lone surrogate.
\<close>

theorem C6_counterexample_print_raises:
  "index_setup ascii_stdout
      \<lparr>path_exists = (\<lambda>p. Inr True), sentence_splitter = (\<lambda>a b. Inr (a, b)),
        load_data = (\<lambda>p. Inr [''doc'']), get_nodes_from_documents = (\<lambda>p d. Inr d),
        vector_store_index = (\<lambda>n. Inr n), persist = (\<lambda>i p. Inr ()),
        from_defaults = (\<lambda>p. Inr ()), load_index_from_storage = (\<lambda>c. Inr [''saved'']),
        as_query_engine = (\<lambda>i c. Inr (0::nat))\<rparr> =
     ([PathExists ''./storage'', Printed loading_line, FromDefaults ''./storage'',
       LoadIndexFromStorage],
      Inl UnicodeEncodeError)
   \<and> index_setup utf8_stdout
      \<lparr>path_exists = (\<lambda>p. Inr False), sentence_splitter = (\<lambda>a b. Inr (a, b)),
        load_data = (\<lambda>p. Inl (PyExc True ''OSError'' (ascii ''cannot read '' @ [0xDC80]))),
        get_nodes_from_documents = (\<lambda>p d. Inr d),
        vector_store_index = (\<lambda>n. Inr n), persist = (\<lambda>i p. Inr ()),
        from_defaults = (\<lambda>p. Inr ()), load_index_from_storage = (\<lambda>c. Inr [''saved'']),
        as_query_engine = (\<lambda>i c. Inr (0::nat))\<rparr> =
     ([PathExists ''./storage'', Printed no_storage_line, SentenceSplitter 350 35,
        LoadData ''./data''],
      Inl UnicodeEncodeError)"
  by (simp add: index_setup_def try_body_def build_new_index_def load_saved_index_def
      and_then_call_Inr and_then_call_Inl and_then_print finish_def STORAGE_DIR_def PDF_DIR_def
      ascii_stdout_def utf8_stdout_def is_surrogate_def UnicodeEncodeError_def
      no_storage_line_def index_built_line_def loading_line_def index_loaded_line_def
      index_setup_error_log_def ascii_def)

theorem C6_index_setup_witness:
  "index_setup utf8_stdout
      \<lparr>path_exists = (\<lambda>p. Inr False), sentence_splitter = (\<lambda>a b. Inr (a, b)),
        load_data = (\<lambda>p. Inr [''doc'']), get_nodes_from_documents = (\<lambda>p d. Inr d),
        vector_store_index = (\<lambda>n. Inr n), persist = (\<lambda>i p. Inr ()),
        from_defaults = (\<lambda>p. Inr ()), load_index_from_storage = (\<lambda>c. Inr [''saved'']),
        as_query_engine = (\<lambda>i c. Inr (0::nat))\<rparr> =
     ([PathExists ''./storage'', Printed no_storage_line, SentenceSplitter 350 35,
        LoadData ''./data'', GetNodesFromDocuments, VectorStoreIndex, Persist ''./storage'',
        Printed index_built_line],
      Inr (Some [''doc'']))
   \<and> index_setup utf8_stdout
      \<lparr>path_exists = (\<lambda>p. Inr True), sentence_splitter = (\<lambda>a b. Inr (a, b)),
        load_data = (\<lambda>p. Inr [''doc'']), get_nodes_from_documents = (\<lambda>p d. Inr d),
        vector_store_index = (\<lambda>n. Inr n), persist = (\<lambda>i p. Inr ()),
        from_defaults = (\<lambda>p. Inr ()), load_index_from_storage = (\<lambda>c. Inr [''saved'']),
        as_query_engine = (\<lambda>i c. Inr (0::nat))\<rparr> =
     ([PathExists ''./storage'', Printed loading_line, FromDefaults ''./storage'',
        LoadIndexFromStorage, Printed index_loaded_line],
      Inr (Some [''saved'']))
   \<and> index_setup utf8_stdout
      \<lparr>path_exists = (\<lambda>p. Inr False), sentence_splitter = (\<lambda>a b. Inr (a, b)),
        load_data = (\<lambda>p. Inl (PyExc True ''ValueError'' (ascii ''No files found in ./data.''))),
        get_nodes_from_documents = (\<lambda>p d. Inr d),
        vector_store_index = (\<lambda>n. Inr n), persist = (\<lambda>i p. Inr ()),
        from_defaults = (\<lambda>p. Inr ()), load_index_from_storage = (\<lambda>c. Inr [''saved'']),
        as_query_engine = (\<lambda>i c. Inr (0::nat))\<rparr> =
     ([PathExists ''./storage'', Printed no_storage_line, SentenceSplitter 350 35,
        LoadData ''./data''] @
      [Printed (index_setup_error_log (PyExc True ''ValueError'' (ascii ''No files found in ./data.'')))],
      Inr None)
   \<and> index_setup utf8_stdout
      \<lparr>path_exists = (\<lambda>p. Inr False), sentence_splitter = (\<lambda>a b. Inr (a, b)),
        load_data = (\<lambda>p. Inr [''doc'']), get_nodes_from_documents = (\<lambda>p d. Inr d),
        vector_store_index = (\<lambda>n. Inr n), persist = (\<lambda>i p. Inl (PyExc True ''PermissionError'' (ascii ''Permission denied''))),
        from_defaults = (\<lambda>p. Inr ()), load_index_from_storage = (\<lambda>c. Inr [''saved'']),
        as_query_engine = (\<lambda>i c. Inr (0::nat))\<rparr> =
     ([PathExists ''./storage'', Printed no_storage_line, SentenceSplitter 350 35,
        LoadData ''./data'', GetNodesFromDocuments, VectorStoreIndex, Persist ''./storage'',
        Printed (index_setup_error_log (PyExc True ''PermissionError'' (ascii ''Permission denied'')))],
      Inr None)"
proof -
  have a: "index_setup utf8_stdout
      \<lparr>path_exists = (\<lambda>p. Inr False), sentence_splitter = (\<lambda>a b. Inr (a, b)),
        load_data = (\<lambda>p. Inr [''doc'']), get_nodes_from_documents = (\<lambda>p d. Inr d),
        vector_store_index = (\<lambda>n. Inr n), persist = (\<lambda>i p. Inr ()),
        from_defaults = (\<lambda>p. Inr ()), load_index_from_storage = (\<lambda>c. Inr [''saved'']),
        as_query_engine = (\<lambda>i c. Inr (0::nat))\<rparr> =
     ([PathExists ''./storage'', Printed no_storage_line, SentenceSplitter 350 35,
        LoadData ''./data'', GetNodesFromDocuments, VectorStoreIndex, Persist ''./storage'',
        Printed index_built_line],
      Inr (Some [''doc'']))"
    using C6_index_setup [where out = utf8_stdout
        and L = "\<lparr>path_exists = (\<lambda>p. Inr False), sentence_splitter = (\<lambda>a b. Inr (a, b)),
        load_data = (\<lambda>p. Inr [''doc'']), get_nodes_from_documents = (\<lambda>p d. Inr d),
        vector_store_index = (\<lambda>n. Inr n), persist = (\<lambda>i p. Inr ()),
        from_defaults = (\<lambda>p. Inr ()), load_index_from_storage = (\<lambda>c. Inr [''saved'']),
        as_query_engine = (\<lambda>i c. Inr (0::nat))\<rparr>"
        and p = "(350, 35)" and d = "[''doc'']" and n = "[''doc'']" and i = "[''doc'']",
        THEN conjunct1]
    by (simp add: STORAGE_DIR_def PDF_DIR_def utf8_stdout_def is_surrogate_def
      no_storage_line_def index_built_line_def loading_line_def index_loaded_line_def
      index_setup_error_log_def ascii_def)
  have b: "index_setup utf8_stdout
      \<lparr>path_exists = (\<lambda>p. Inr True), sentence_splitter = (\<lambda>a b. Inr (a, b)),
        load_data = (\<lambda>p. Inr [''doc'']), get_nodes_from_documents = (\<lambda>p d. Inr d),
        vector_store_index = (\<lambda>n. Inr n), persist = (\<lambda>i p. Inr ()),
        from_defaults = (\<lambda>p. Inr ()), load_index_from_storage = (\<lambda>c. Inr [''saved'']),
        as_query_engine = (\<lambda>i c. Inr (0::nat))\<rparr> =
     ([PathExists ''./storage'', Printed loading_line, FromDefaults ''./storage'',
        LoadIndexFromStorage, Printed index_loaded_line],
      Inr (Some [''saved'']))"
    using C6_index_setup [where out = utf8_stdout
        and L = "\<lparr>path_exists = (\<lambda>p. Inr True), sentence_splitter = (\<lambda>a b. Inr (a, b)),
        load_data = (\<lambda>p. Inr [''doc'']), get_nodes_from_documents = (\<lambda>p d. Inr d),
        vector_store_index = (\<lambda>n. Inr n), persist = (\<lambda>i p. Inr ()),
        from_defaults = (\<lambda>p. Inr ()), load_index_from_storage = (\<lambda>c. Inr [''saved'']),
        as_query_engine = (\<lambda>i c. Inr (0::nat))\<rparr>"
        and c = "()" and i' = "[''saved'']", THEN conjunct2, THEN conjunct1]
    by (simp add: STORAGE_DIR_def PDF_DIR_def utf8_stdout_def is_surrogate_def
      no_storage_line_def index_built_line_def loading_line_def index_loaded_line_def
      index_setup_error_log_def ascii_def)
  have c: "index_setup utf8_stdout
      \<lparr>path_exists = (\<lambda>p. Inr False), sentence_splitter = (\<lambda>a b. Inr (a, b)),
        load_data = (\<lambda>p. Inl (PyExc True ''ValueError'' (ascii ''No files found in ./data.''))),
        get_nodes_from_documents = (\<lambda>p d. Inr d),
        vector_store_index = (\<lambda>n. Inr n), persist = (\<lambda>i p. Inr ()),
        from_defaults = (\<lambda>p. Inr ()), load_index_from_storage = (\<lambda>c. Inr [''saved'']),
        as_query_engine = (\<lambda>i c. Inr (0::nat))\<rparr> =
     ([PathExists ''./storage'', Printed no_storage_line, SentenceSplitter 350 35,
        LoadData ''./data''] @
      [Printed (index_setup_error_log (PyExc True ''ValueError'' (ascii ''No files found in ./data.'')))],
      Inr None)"
    using C6_index_setup [where out = utf8_stdout
        and L = "\<lparr>path_exists = (\<lambda>p. Inr False), sentence_splitter = (\<lambda>a b. Inr (a, b)),
        load_data = (\<lambda>p. Inl (PyExc True ''ValueError'' (ascii ''No files found in ./data.''))),
        get_nodes_from_documents = (\<lambda>p d. Inr d),
        vector_store_index = (\<lambda>n. Inr n), persist = (\<lambda>i p. Inr ()),
        from_defaults = (\<lambda>p. Inr ()), load_index_from_storage = (\<lambda>c. Inr [''saved'']),
        as_query_engine = (\<lambda>i c. Inr (0::nat))\<rparr>"
        and p = "(350, 35)"
        and e = "PyExc True ''ValueError'' (ascii ''No files found in ./data.'')", THEN conjunct2, THEN conjunct2, THEN conjunct1, THEN mp,
        THEN conjunct2, THEN conjunct2, THEN conjunct2, THEN conjunct1]
    by (simp add: STORAGE_DIR_def PDF_DIR_def utf8_stdout_def is_surrogate_def
      no_storage_line_def index_built_line_def loading_line_def index_loaded_line_def
      index_setup_error_log_def ascii_def)
  have d: "index_setup utf8_stdout
      \<lparr>path_exists = (\<lambda>p. Inr False), sentence_splitter = (\<lambda>a b. Inr (a, b)),
        load_data = (\<lambda>p. Inr [''doc'']), get_nodes_from_documents = (\<lambda>p d. Inr d),
        vector_store_index = (\<lambda>n. Inr n), persist = (\<lambda>i p. Inl (PyExc True ''PermissionError'' (ascii ''Permission denied''))),
        from_defaults = (\<lambda>p. Inr ()), load_index_from_storage = (\<lambda>c. Inr [''saved'']),
        as_query_engine = (\<lambda>i c. Inr (0::nat))\<rparr> =
     ([PathExists ''./storage'', Printed no_storage_line, SentenceSplitter 350 35,
        LoadData ''./data'', GetNodesFromDocuments, VectorStoreIndex, Persist ''./storage'',
        Printed (index_setup_error_log (PyExc True ''PermissionError'' (ascii ''Permission denied'')))],
      Inr None)"
    using C6_index_setup [where out = utf8_stdout
        and L = "\<lparr>path_exists = (\<lambda>p. Inr False), sentence_splitter = (\<lambda>a b. Inr (a, b)),
        load_data = (\<lambda>p. Inr [''doc'']), get_nodes_from_documents = (\<lambda>p d. Inr d),
        vector_store_index = (\<lambda>n. Inr n), persist = (\<lambda>i p. Inl (PyExc True ''PermissionError'' (ascii ''Permission denied''))),
        from_defaults = (\<lambda>p. Inr ()), load_index_from_storage = (\<lambda>c. Inr [''saved'']),
        as_query_engine = (\<lambda>i c. Inr (0::nat))\<rparr>"
        and p = "(350, 35)" and d = "[''doc'']" and n = "[''doc'']" and i = "[''doc'']"
        and e = "PyExc True ''PermissionError'' (ascii ''Permission denied'')", THEN conjunct2, THEN conjunct2, THEN conjunct1, THEN mp,
        THEN conjunct2, THEN conjunct2, THEN conjunct2, THEN conjunct2, THEN conjunct2,
        THEN conjunct2, THEN conjunct1]
    by (simp add: STORAGE_DIR_def PDF_DIR_def utf8_stdout_def is_surrogate_def
      no_storage_line_def index_built_line_def loading_line_def index_loaded_line_def
      index_setup_error_log_def ascii_def)
  from a b c d show ?thesis by simp
qed

lemma all_and_then:
  assumes "list_all P (fst m)" and "\<And>x. list_all P (fst (f x))"
  shows "list_all P (fst (and_then m f))"
proof (cases m)
  case (Pair t r)
  show ?thesis
  proof (cases r)
    case (Inl e)
    with Pair assms(1) show ?thesis by (simp add: and_then_Inl)
  next
    case (Inr x)
    with Pair assms(1) assms(2) [of x] show ?thesis by (simp add: and_then_Inr)
  qed
qed

lemma build_new_index_no_engine:
  "list_all (\<lambda>c. \<not> is_as_query_engine c) (fst (build_new_index out L))"
  unfolding build_new_index_def
  by (intro all_and_then) (simp_all add: call_def print_def finish_def split: option.splits)

lemma load_saved_index_no_engine:
  "list_all (\<lambda>c. \<not> is_as_query_engine c) (fst (load_saved_index out L))"
  unfolding load_saved_index_def
  by (intro all_and_then) (simp_all add: call_def print_def finish_def split: option.splits)

lemma try_body_no_engine:
  "list_all (\<lambda>c. \<not> is_as_query_engine c) (fst (try_body out L))"
  unfolding try_body_def
  by (rule all_and_then)
    (simp_all add: call_def build_new_index_no_engine load_saved_index_no_engine)

lemma index_setup_no_engine:
  "list_all (\<lambda>c. \<not> is_as_query_engine c) (fst (index_setup out L))"
  using try_body_no_engine [of out L]
  by (auto simp add: index_setup_def split: prod.splits sum.splits option.splits)

lemma filter_none: "list_all (\<lambda>c. \<not> P c) xs \<Longrightarrow> filter P xs = []"
  by (induction xs) simp_all

text \<open>
  C8. When the index setup yields an index, the startup then constructs the query
  engine with one call of \<open>as_query_engine\<close>: the only such call of the whole startup,
  with the client of \<open>gemma2:2b\<close>, streaming enabled, the fixed template and
  \<open>similarity_top_k = 3\<close>; the global \<open>query_engine\<close> is what the call returns. The
  template contains the instruction to answer only from the provided context and the
  instruction to say so when the context lacks the answer.
\<close>

theorem C8_query_engine_settings:
  "(index_setup out L = (t, Inr (Some i)) \<longrightarrow>
      fst (startup out L) =
        t @ [AsQueryEngine \<lparr>cfg_llm = \<lparr>model = ''gemma2:2b'', request_timeout = 120\<rparr>,
                            streaming = True, text_qa_template = qa_prompt_tmpl_str,
                            similarity_top_k = 3\<rparr>] \<and>
      length (filter is_as_query_engine (fst (startup out L))) = 1 \<and>
      snd (startup out L) =
        (case as_query_engine L i engine_settings of
           Inl e \<Rightarrow> Inl e
         | Inr qe \<Rightarrow> Inr \<lparr>g_index = Some i, g_query_engine = Some qe\<rparr>))
   \<and> (\<exists>pre post. qa_prompt_tmpl_str =
         pre @ ''answer questions accurately and concisely based ONLY on the provided context documents.'' @ post)
   \<and> (\<exists>pre post. qa_prompt_tmpl_str =
         pre @ ''If the context does not contain the answer, state that you do not have enough information.'' @ post)"
proof (intro conjI impI)
  assume a: "index_setup out L = (t, Inr (Some i))"
  have s: "startup out L =
      (t @ [AsQueryEngine engine_settings],
       (case as_query_engine L i engine_settings of
           Inl e \<Rightarrow> Inl e
         | Inr qe \<Rightarrow> Inr \<lparr>g_index = Some i, g_query_engine = Some qe\<rparr>))"
    by (cases "as_query_engine L i engine_settings")
      (simp_all add: startup_def a and_then_Inr and_then_Inl query_engine_setup_def
        and_then_call_Inr and_then_call_Inl finish_def)
  then show "fst (startup out L) =
        t @ [AsQueryEngine \<lparr>cfg_llm = \<lparr>model = ''gemma2:2b'', request_timeout = 120\<rparr>,
                            streaming = True, text_qa_template = qa_prompt_tmpl_str,
                            similarity_top_k = 3\<rparr>]"
    by (simp add: engine_settings_def llm_def OLLAMA_MODEL_def)
  from index_setup_no_engine [of out L] a have "filter is_as_query_engine t = []"
    by (simp add: filter_none)
  with s show "length (filter is_as_query_engine (fst (startup out L))) = 1" by simp
  from s show "snd (startup out L) =
        (case as_query_engine L i engine_settings of
           Inl e \<Rightarrow> Inl e
         | Inr qe \<Rightarrow> Inr \<lparr>g_index = Some i, g_query_engine = Some qe\<rparr>)" by simp
next
  show "\<exists>pre post. qa_prompt_tmpl_str =
         pre @ ''answer questions accurately and concisely based ONLY on the provided context documents.'' @ post"
    unfolding qa_prompt_tmpl_str_def
    by (rule exI [of _ "''You are a professional AI assistant for the Dattopant Thengadi Foundation. Your role is to ''"], rule exI) simp
next
  show "\<exists>pre post. qa_prompt_tmpl_str =
         pre @ ''If the context does not contain the answer, state that you do not have enough information.'' @ post"
    unfolding qa_prompt_tmpl_str_def
    by (rule exI [of _ "''You are a professional AI assistant for the Dattopant Thengadi Foundation. Your role is to answer questions accurately and concisely based ONLY on the provided context documents.'' @ [CHR 0x0A]"], rule exI) simp
qed

theorem C8_query_engine_witness:
  "fst (startup utf8_stdout
      \<lparr>path_exists = (\<lambda>p. Inr False), sentence_splitter = (\<lambda>a b. Inr (a, b)),
        load_data = (\<lambda>p. Inr [''doc'']), get_nodes_from_documents = (\<lambda>p d. Inr d),
        vector_store_index = (\<lambda>n. Inr n), persist = (\<lambda>i p. Inr ()),
        from_defaults = (\<lambda>p. Inr ()), load_index_from_storage = (\<lambda>c. Inr [''saved'']),
        as_query_engine = (\<lambda>i c. Inr (0::nat))\<rparr>) =
     [PathExists ''./storage'', Printed no_storage_line, SentenceSplitter 350 35,
        LoadData ''./data'', GetNodesFromDocuments, VectorStoreIndex, Persist ''./storage'',
        Printed index_built_line] @
     [AsQueryEngine \<lparr>cfg_llm = \<lparr>model = ''gemma2:2b'', request_timeout = 120\<rparr>,
                     streaming = True, text_qa_template = qa_prompt_tmpl_str,
                     similarity_top_k = 3\<rparr>]
   \<and> snd (startup utf8_stdout
      \<lparr>path_exists = (\<lambda>p. Inr False), sentence_splitter = (\<lambda>a b. Inr (a, b)),
        load_data = (\<lambda>p. Inr [''doc'']), get_nodes_from_documents = (\<lambda>p d. Inr d),
        vector_store_index = (\<lambda>n. Inr n), persist = (\<lambda>i p. Inr ()),
        from_defaults = (\<lambda>p. Inr ()), load_index_from_storage = (\<lambda>c. Inr [''saved'']),
        as_query_engine = (\<lambda>i c. Inr (0::nat))\<rparr>) =
     Inr \<lparr>g_index = Some [''doc''], g_query_engine = Some 0\<rparr>"
  using C8_query_engine_settings [where out = utf8_stdout
        and L = "\<lparr>path_exists = (\<lambda>p. Inr False), sentence_splitter = (\<lambda>a b. Inr (a, b)),
        load_data = (\<lambda>p. Inr [''doc'']), get_nodes_from_documents = (\<lambda>p d. Inr d),
        vector_store_index = (\<lambda>n. Inr n), persist = (\<lambda>i p. Inr ()),
        from_defaults = (\<lambda>p. Inr ()), load_index_from_storage = (\<lambda>c. Inr [''saved'']),
        as_query_engine = (\<lambda>i c. Inr (0::nat))\<rparr>"
        and t = "[PathExists ''./storage'', Printed no_storage_line, SentenceSplitter 350 35,
        LoadData ''./data'', GetNodesFromDocuments, VectorStoreIndex, Persist ''./storage'',
        Printed index_built_line]"
        and i = "[''doc'']", THEN conjunct1]
    index_setup_builds [where out = utf8_stdout
        and L = "\<lparr>path_exists = (\<lambda>p. Inr False), sentence_splitter = (\<lambda>a b. Inr (a, b)),
        load_data = (\<lambda>p. Inr [''doc'']), get_nodes_from_documents = (\<lambda>p d. Inr d),
        vector_store_index = (\<lambda>n. Inr n), persist = (\<lambda>i p. Inr ()),
        from_defaults = (\<lambda>p. Inr ()), load_index_from_storage = (\<lambda>c. Inr [''saved'']),
        as_query_engine = (\<lambda>i c. Inr (0::nat))\<rparr>"
        and p = "(350, 35)" and d = "[''doc'']" and n = "[''doc'']" and i = "[''doc'']"]
  by (simp add: STORAGE_DIR_def PDF_DIR_def utf8_stdout_def is_surrogate_def
      no_storage_line_def index_built_line_def loading_line_def index_loaded_line_def
      index_setup_error_log_def ascii_def)

end
